theory Spec2Isabelle
  imports Main "HOL-Library.Sublist"
begin

section \<open>Text helpers of the Python runtime used by the scripts\<close>

text \<open>
  Python strings are sequences of code points. They are modelled as \<^typ>\<open>string\<close>, one
  \<^typ>\<open>char\<close> per code point, which covers the code points below 256; \<open>len\<close> is
  \<^const>\<open>length\<close>.

  \<open>str.isspace\<close> on that range: TAB, LF, VT, FF, CR, the separators FS, GS, RS, US,
  the blank, NEL (0x85) and the no-break space (0xA0).
\<close>

definition isspace :: "char \<Rightarrow> bool" where
  "isspace c = (c \<in> set [CHR 0x09, CHR 0x0A, CHR 0x0B, CHR 0x0C, CHR 0x0D,
                          CHR 0x1C, CHR 0x1D, CHR 0x1E, CHR 0x1F, CHR 0x20,
                          CHR 0x85, CHR 0xA0])"

text \<open>\<open>s.strip()\<close>: leading and trailing white space removed.\<close>

definition strip :: "string \<Rightarrow> string" where
  "strip s = rev (dropWhile isspace (rev (dropWhile isspace s)))"

text \<open>
  \<open>s.split()\<close> with no separator: the maximal runs of non-blank characters, in order;
  \<open>split_acc w s\<close> carries the word \<open>w\<close> read so far.
\<close>

fun split_acc :: "string \<Rightarrow> string \<Rightarrow> string list" where
  "split_acc w [] = (if w = [] then [] else [w])"
| "split_acc w (c # cs) =
     (if isspace c then (if w = [] then split_acc [] cs else w # split_acc [] cs)
      else split_acc (w @ [c]) cs)"

definition split :: "string \<Rightarrow> string list" where
  "split s = split_acc [] s"

text \<open>\<open>sep.join(xs)\<close>.\<close>

fun join :: "string \<Rightarrow> string list \<Rightarrow> string" where
  "join sep [] = []"
| "join sep [x] = x"
| "join sep (x # y # ys) = x @ sep @ join sep (y # ys)"

text \<open>\<open>t.startswith("#")\<close>.\<close>

fun startswith_hash :: "string \<Rightarrow> bool" where
  "startswith_hash [] = False"
| "startswith_hash (c # cs) = (c = CHR ''#'')"

section \<open>The tag-fitting helper \<open>_fit_tags\<close>\<close>

text \<open>The two line feeds that the helper puts between the base text and the tags.\<close>

definition nl2 :: string where
  "nl2 = [CHR 0x0A, CHR 0x0A]"

text \<open>
  The \<open>for t in tag_list\<close> loop of \<open>_fit_tags\<close>: \<open>kept\<close> grows by one tag while
  \<open>len(base + "\n\n" + " ".join(kept + [t]))\<close> stays within \<open>max_len\<close>, and the loop is
  left (\<open>break\<close>) at the first tag that does not fit.
\<close>

fun fit_loop :: "string \<Rightarrow> int \<Rightarrow> string list \<Rightarrow> string list \<Rightarrow> string list" where
  "fit_loop base max_len kept [] = kept"
| "fit_loop base max_len kept (t # ts) =
     (let next_len = int (length (base @ nl2 @ join '' '' (kept @ [t])))
      in if next_len \<le> max_len then fit_loop base max_len (kept @ [t]) ts else kept)"

text \<open>
  \<open>_fit_tags(base, tags, max_len)\<close>. The argument \<open>tags\<close> is a string (the caller passes
  the stripped tag field), so \<open>tags or ""\<close> is \<open>tags\<close>.
\<close>

definition fit_tags :: "string \<Rightarrow> string \<Rightarrow> int \<Rightarrow> string" where
  "fit_tags base tags0 max_len =
     (let tags = strip tags0 in
      if tags = [] then []
      else
        let candidate = base @ nl2 @ tags in
        if int (length candidate) \<le> max_len then tags
        else
          let tag_list = filter startswith_hash (split tags)
          in join '' '' (fit_loop base max_len [] tag_list))"

text \<open>
  The test of the loop, \<open>len(base + "\n\n" + " ".join(ts)) <= max_len\<close>, as a predicate
  on a list of tags, the hashtags of a tag string, and what a token is: a non-empty
  word without white space.
\<close>

definition fits :: "string \<Rightarrow> int \<Rightarrow> string list \<Rightarrow> bool" where
  "fits base max_len ts = (int (length (base @ nl2 @ join '' '' ts)) \<le> max_len)"

definition hashtags :: "string \<Rightarrow> string list" where
  "hashtags tags = filter startswith_hash (split (strip tags))"

definition token :: "string \<Rightarrow> bool" where
  "token t = (t \<noteq> [] \<and> (\<forall>c \<in> set t. \<not> isspace c))"

section \<open>JSON objects, dates and times\<close>

text \<open>
  A manifest entry and a history record are JSON objects read with \<open>.get\<close>: a map from
  keys to values. The values the scripts read are strings; a key that is missing and a key
  holding \<open>null\<close> both read as \<^const>\<open>None\<close>.
\<close>

type_synonym jobj = "string \<rightharpoonup> string"

text \<open>Python's \<open>a or b\<close> on such values: \<open>None\<close> and the empty string are falsy.\<close>

definition py_or :: "string option \<Rightarrow> string option \<Rightarrow> string option" where
  "py_or a b = (case a of None \<Rightarrow> b | Some s \<Rightarrow> if s = [] then b else a)"

text \<open>\<open>a or ""\<close>.\<close>

definition or_empty :: "string option \<Rightarrow> string" where
  "or_empty a = (case a of None \<Rightarrow> [] | Some s \<Rightarrow> s)"

text \<open>
  \<open>datetime.datetime\<close> of the standard library: the calendar fields, the time of day and
  the offset from UTC in microseconds, \<^const>\<open>None\<close> for a naive value.
\<close>

record datetime =
  year :: int
  month :: int
  day :: int
  hour :: int
  minute :: int
  second :: int
  microsecond :: int
  utcoffset :: "int option"

text \<open>
  \<open>date.toordinal\<close>, the day number in the proleptic Gregorian calendar, as the standard
  library computes it (\<open>_ymd2ord\<close>).
\<close>

definition is_leap :: "int \<Rightarrow> bool" where
  "is_leap y = (y mod 4 = 0 \<and> (y mod 100 \<noteq> 0 \<or> y mod 400 = 0))"

definition days_before_year :: "int \<Rightarrow> int" where
  "days_before_year y = (let y1 = y - 1 in y1 * 365 + y1 div 4 - y1 div 100 + y1 div 400)"

definition days_in_month :: "int list" where
  "days_in_month = [31, 28, 31, 30, 31, 30, 31, 31, 30, 31, 30, 31]"

definition days_before_month :: "int \<Rightarrow> int \<Rightarrow> int" where
  "days_before_month y m =
     sum_list (take (nat (m - 1)) days_in_month) + (if m > 2 \<and> is_leap y then 1 else 0)"

definition toordinal :: "datetime \<Rightarrow> int" where
  "toordinal d = days_before_year (year d) + days_before_month (year d) (month d) + day d"

text \<open>
  \<open>_days_ago(ts, now)\<close> is \<open>(now.date() - ts.date()).days\<close>: the difference of the two
  day numbers. Neither value is converted to another time zone first.
\<close>

definition days_ago :: "datetime \<Rightarrow> datetime \<Rightarrow> int" where
  "days_ago ts now = toordinal now - toordinal ts"

text \<open>
  The exceptions of the model. Comparing a naive with an aware \<open>datetime\<close> raises
  \<open>TypeError\<close>; \<open>fromisoformat\<close> raises \<open>ValueError\<close> on a string it cannot read.
\<close>

datatype exn = TypeError | ValueError

text \<open>
  Microseconds since the start of day 0 as the fields read, and the same on the UTC scale
  for an aware value.
\<close>

definition naive_us :: "datetime \<Rightarrow> int" where
  "naive_us d =
     (((toordinal d * 24 + hour d) * 60 + minute d) * 60 + second d) * 1000000 + microsecond d"

definition instant :: "datetime \<Rightarrow> int" where
  "instant d = naive_us d - (case utcoffset d of None \<Rightarrow> 0 | Some off \<Rightarrow> off)"

text \<open>
  \<open>a > b\<close> on two \<open>datetime\<close> values. Two naive values are compared field by
  field, which for the field values that a \<open>datetime\<close> can hold is the order of
  \<^const>\<open>naive_us\<close>; two aware values are compared on the UTC scale.
\<close>

definition dt_gt :: "datetime \<Rightarrow> datetime \<Rightarrow> exn + bool" where
  "dt_gt a b =
     (case (utcoffset a, utcoffset b) of
        (None, None) \<Rightarrow> Inr (naive_us b < naive_us a)
      | (Some oa, Some ob) \<Rightarrow> Inr (naive_us b - ob < naive_us a - oa)
      | _ \<Rightarrow> Inl TypeError)"

section \<open>The eligibility engine \<open>_eligible_entries\<close>\<close>

text \<open>
  The key and the timestamp that the first loop reads from a history record.
  \<open>rin_throwback_post.py\<close> reads \<open>posted_at\<close> and falls back on the legacy
  \<open>tweeted_at\<close>; \<open>rin_throwback_tweet.py\<close> reads \<open>tweeted_at\<close> only.
\<close>

definition hist_key :: "jobj \<Rightarrow> string" where
  "hist_key h = strip (or_empty (py_or (h ''set_url'') (h ''set_name'')))"

definition ts_post :: "jobj \<Rightarrow> string option" where
  "ts_post h = py_or (h ''posted_at'') (h ''tweeted_at'')"

definition ts_tweet :: "jobj \<Rightarrow> string option" where
  "ts_tweet h = h ''tweeted_at''"

text \<open>
  The loop over the history, building the dictionary \<open>last\<close> (here \<open>last_seen\<close>).
  \<open>fromiso\<close> is \<open>datetime.fromisoformat\<close>, \<^const>\<open>None\<close> where it raises (the \<open>except\<close> clause
  skips the record). The comparison \<open>when > last[key]\<close> is outside the \<open>try\<close>.
\<close>

fun last_loop ::
  "(jobj \<Rightarrow> string option) \<Rightarrow> (string \<Rightarrow> datetime option) \<Rightarrow>
   (string \<rightharpoonup> datetime) \<Rightarrow> jobj list \<Rightarrow> exn + (string \<rightharpoonup> datetime)" where
  "last_loop ts_of fromiso last_seen [] = Inr last_seen"
| "last_loop ts_of fromiso last_seen (h # hs) =
     (let key = hist_key h in
      case ts_of h of
        None \<Rightarrow> last_loop ts_of fromiso last_seen hs
      | Some ts \<Rightarrow>
          if key = [] \<or> ts = [] then last_loop ts_of fromiso last_seen hs
          else
            (case fromiso ts of
               None \<Rightarrow> last_loop ts_of fromiso last_seen hs
             | Some when \<Rightarrow>
                 (case last_seen key of
                    None \<Rightarrow> last_loop ts_of fromiso (last_seen(key \<mapsto> when)) hs
                  | Some old \<Rightarrow>
                      (case dt_gt when old of
                         Inl err \<Rightarrow> Inl err
                       | Inr True \<Rightarrow> last_loop ts_of fromiso (last_seen(key \<mapsto> when)) hs
                       | Inr False \<Rightarrow> last_loop ts_of fromiso last_seen hs))))"

text \<open>The identity key of a manifest entry: \<open>set_url or set_name\<close>, both stripped.\<close>

definition entry_key :: "jobj \<Rightarrow> string" where
  "entry_key e =
     (let set_url = strip (or_empty (e ''set_url''));
          set_name = strip (or_empty (e ''set_name''))
      in if set_url \<noteq> [] then set_url else set_name)"

text \<open>The loop over the manifest; \<open>eligible\<close> is the list built so far.\<close>

fun eligible_loop ::
  "(string \<rightharpoonup> datetime) \<Rightarrow> int \<Rightarrow> datetime \<Rightarrow> jobj list \<Rightarrow> jobj list \<Rightarrow> jobj list" where
  "eligible_loop last_seen threshold_days now eligible [] = eligible"
| "eligible_loop last_seen threshold_days now eligible (e # es) =
     (let key = entry_key e in
      if key = [] then eligible_loop last_seen threshold_days now eligible es
      else
        (case last_seen key of
           None \<Rightarrow> eligible_loop last_seen threshold_days now (eligible @ [e]) es
         | Some when \<Rightarrow>
             if days_ago when now \<ge> threshold_days
             then eligible_loop last_seen threshold_days now (eligible @ [e]) es
             else eligible_loop last_seen threshold_days now eligible es))"

definition eligible_with ::
  "(jobj \<Rightarrow> string option) \<Rightarrow> (string \<Rightarrow> datetime option) \<Rightarrow>
   jobj list \<Rightarrow> jobj list \<Rightarrow> int \<Rightarrow> datetime \<Rightarrow> exn + jobj list" where
  "eligible_with ts_of fromiso manifest history threshold_days now =
     (case last_loop ts_of fromiso Map.empty history of
        Inl err \<Rightarrow> Inl err
      | Inr last_seen \<Rightarrow> Inr (eligible_loop last_seen threshold_days now [] manifest))"

text \<open>\<open>_eligible_entries\<close> of \<open>rin_throwback_post.py\<close>.\<close>

definition eligible_entries ::
  "(string \<Rightarrow> datetime option) \<Rightarrow> jobj list \<Rightarrow> jobj list \<Rightarrow> int \<Rightarrow> datetime \<Rightarrow> exn + jobj list" where
  "eligible_entries = eligible_with ts_post"

text \<open>\<open>_eligible_entries\<close> of \<open>rin_throwback_tweet.py\<close>.\<close>

definition eligible_entries_tweet ::
  "(string \<Rightarrow> datetime option) \<Rightarrow> jobj list \<Rightarrow> jobj list \<Rightarrow> int \<Rightarrow> datetime \<Rightarrow> exn + jobj list" where
  "eligible_entries_tweet = eligible_with ts_tweet"

subsection \<open>The identity-to-last-seen index, key by key\<close>

text \<open>
  The timestamp that a history record contributes to the index: none when the record has
  no key, no timestamp, or a timestamp that \<open>fromisoformat\<close> rejects.
\<close>

definition stamp ::
  "(jobj \<Rightarrow> string option) \<Rightarrow> (string \<Rightarrow> datetime option) \<Rightarrow> jobj \<Rightarrow> datetime option" where
  "stamp ts_of fromiso h =
     (case ts_of h of None \<Rightarrow> None
      | Some ts \<Rightarrow> if hist_key h = [] \<or> ts = [] then None else fromiso ts)"

text \<open>The timestamps recorded under the key \<open>k\<close>, in history order.\<close>

definition stamps ::
  "(jobj \<Rightarrow> string option) \<Rightarrow> (string \<Rightarrow> datetime option) \<Rightarrow> jobj list \<Rightarrow> string \<Rightarrow>
   datetime list" where
  "stamps ts_of fromiso hs k =
     List.map_filter (stamp ts_of fromiso) (filter (\<lambda>h. hist_key h = k) hs)"


text \<open>The test that the manifest loop applies to one entry.\<close>

definition eligible_now :: "(string \<rightharpoonup> datetime) \<Rightarrow> int \<Rightarrow> datetime \<Rightarrow> jobj \<Rightarrow> bool" where
  "eligible_now last_seen threshold_days now e =
     (entry_key e \<noteq> [] \<and>
      (case last_seen (entry_key e) of None \<Rightarrow> True
       | Some when \<Rightarrow> threshold_days \<le> days_ago when now))"

section \<open>The persistent store: \<open>_load_json\<close>, \<open>_load_history\<close>, \<open>_save_json\<close>\<close>

text \<open>
  The files that a run can see: a map from paths to file contents. A path is the string
  that \<open>pathlib.Path\<close> holds; directories are not tracked.
\<close>

type_synonym path = string

type_synonym fs = "path \<rightharpoonup> string"

definition exists_file :: "fs \<Rightarrow> path \<Rightarrow> bool" where
  "exists_file files p = (files p \<noteq> None)"

text \<open>
  The documents that \<open>json.load\<close> returns, as far as the scripts tell them apart: an
  array (of objects), an object, anything else.
\<close>

datatype json = JArray "jobj list" | JObject jobj | JOther

text \<open>
  \<open>_save_json(path, data)\<close>, one file-system operation after the other: the parent
  directory is made, the sibling \<open>path + ".tmp"\<close> is opened for writing (created or
  truncated), the JSON text and a line feed are written to it, and it is renamed over
  \<open>path\<close>. \<open>dumps\<close> is the text that \<open>json.dump(data, f, ensure_ascii=False, indent=2)\<close>
  writes.
\<close>

datatype fsop =
    MkParents path
  | OpenTruncate path
  | Write path string
  | Replace path path

definition tmp_path :: "path \<Rightarrow> path" where
  "tmp_path p = p @ ''.tmp''"

fun apply_op :: "fs \<Rightarrow> fsop \<Rightarrow> fs" where
  "apply_op files (MkParents p) = files"
| "apply_op files (OpenTruncate p) = files(p \<mapsto> [])"
| "apply_op files (Write p s) = files(p \<mapsto> (case files p of None \<Rightarrow> s | Some old \<Rightarrow> old @ s))"
| "apply_op files (Replace src dst) = (files(dst := files src))(src := None)"

definition run_ops :: "fs \<Rightarrow> fsop list \<Rightarrow> fs" where
  "run_ops files ops = foldl apply_op files ops"

definition save_json_ops :: "('d \<Rightarrow> string) \<Rightarrow> path \<Rightarrow> 'd \<Rightarrow> fsop list" where
  "save_json_ops dumps p data =
     (let tmp = tmp_path p
      in [MkParents p, OpenTruncate tmp, Write tmp (dumps data), Write tmp [CHR 0x0A],
          Replace tmp p])"

definition save_json :: "('d \<Rightarrow> string) \<Rightarrow> path \<Rightarrow> 'd \<Rightarrow> fs \<Rightarrow> fs" where
  "save_json dumps p data files = run_ops files (save_json_ops dumps p data)"

text \<open>
  The state of the files when the process dies after the first \<open>k\<close> operations of a
  save.
\<close>

definition save_json_crashed :: "nat \<Rightarrow> ('d \<Rightarrow> string) \<Rightarrow> path \<Rightarrow> 'd \<Rightarrow> fs \<Rightarrow> fs" where
  "save_json_crashed k dumps p data files = run_ops files (take k (save_json_ops dumps p data))"

text \<open>
  The exceptions that leave \<open>main\<close> uncaught, and \<open>_load_history\<close>: no file gives the
  empty history, a document that is not an array gives the empty history, and a file
  that \<open>json.load\<close> cannot read (\<open>loads\<close> gives \<^const>\<open>None\<close>) raises.
\<close>

datatype uncaught = JSONDecodeError | Raised exn | IndexError

definition load_history :: "(string \<Rightarrow> json option) \<Rightarrow> fs \<Rightarrow> path \<Rightarrow> uncaught + jobj list" where
  "load_history loads files history_path =
     (case files history_path of
        None \<Rightarrow> Inr []
      | Some text \<Rightarrow>
          (case loads text of
             None \<Rightarrow> Inl JSONDecodeError
           | Some (JArray data) \<Rightarrow> Inr data
           | Some _ \<Rightarrow> Inr []))"

section \<open>The run orchestrator: \<open>main\<close> of \<open>rin_throwback_post.py\<close>\<close>

text \<open>
  \<open>_normalize_quotes\<close>: of the nine glyphs it replaces, the two guillemets and the
  backquote lie below code point 256; the other six cannot occur in a \<^typ>\<open>string\<close>.
\<close>

definition normalize_quotes :: "string \<Rightarrow> string" where
  "normalize_quotes text =
     map (\<lambda>c. if c = CHR 0xAB \<or> c = CHR 0xBB then CHR 0x22
               else if c = CHR 0x60 then CHR 0x27 else c) text"

text \<open>\<open>s.split(sep)\<close> for a one-character separator, and \<open>_bluesky_web_url_from_at_uri\<close>.\<close>

fun split_on :: "char \<Rightarrow> string \<Rightarrow> string list" where
  "split_on sep [] = [[]]"
| "split_on sep (c # cs) =
     (if c = sep then [] # split_on sep cs
      else (case split_on sep cs of [] \<Rightarrow> [[c]] | w # ws \<Rightarrow> (c # w) # ws))"

definition bluesky_web_url_from_at_uri :: "string \<Rightarrow> string \<Rightarrow> string option" where
  "bluesky_web_url_from_at_uri at_uri profile_ref =
     (if take 5 at_uri \<noteq> ''at://'' then None
      else
        (case split_on CHR ''/'' (drop 5 at_uri) of
           [u, collection, rkey] \<Rightarrow>
             if collection \<noteq> ''app.bsky.feed.post'' \<or> rkey = [] then None
             else Some (''https://bsky.app/profile/'' @ profile_ref @ ''/post/'' @ rkey)
         | _ \<Rightarrow> None))"

text \<open>The command line, as \<open>argparse\<close> hands it over.\<close>

datatype platform = Twitter | Bluesky | Both

record args =
  arg_manifest :: path
  arg_images_dir :: path
  arg_auth :: path
  arg_twitter_auth :: "path option"
  arg_bluesky_auth :: path
  arg_history :: path
  arg_threshold_days :: int
  arg_set_name :: "string option"
  arg_seed :: "string option"
  arg_template :: path
  arg_bluesky_template :: path
  arg_max_image_mb :: int
  arg_platform :: platform
  arg_dry_run :: bool
  arg_record_dry_run :: bool

text \<open>The context that a template is rendered against.\<close>

record render_context =
  ctx_set_name :: string
  ctx_set_url :: string
  ctx_date_published_iso :: string
  ctx_published :: string
  ctx_tags :: string
  ctx_max_len :: int
  ctx_fit_tags :: "string \<Rightarrow> string \<Rightarrow> int \<Rightarrow> string"

text \<open>
  The library functions that \<open>main\<close> calls, which are not code of the repository:
  \<open>json.loads\<close> (\<^const>\<open>None\<close> where it raises) and \<open>json.dump\<close>,
  \<open>datetime.fromisoformat\<close> (\<^const>\<open>None\<close> where it raises) and \<open>isoformat\<close>,
  \<open>strftime("%b %d, %Y")\<close>, \<open>html.unescape\<close>, \<open>str.casefold\<close>, the path operator
  \<open>/\<close>, the first draw \<open>_randbelow(n)\<close> of \<open>random.Random(seed)\<close>, and the template
  engine (\<^const>\<open>None\<close> where it raises).
\<close>

record library =
  lib_loads :: "string \<Rightarrow> json option"
  lib_dumps :: "jobj list \<Rightarrow> string"
  lib_fromiso :: "string \<Rightarrow> datetime option"
  lib_isoformat :: "datetime \<Rightarrow> string"
  lib_strftime :: "datetime \<Rightarrow> string"
  lib_unescape :: "string \<Rightarrow> string"
  lib_casefold :: "string \<Rightarrow> string"
  lib_joinpath :: "path \<Rightarrow> string \<Rightarrow> path"
  lib_seeded_randbelow :: "string \<Rightarrow> nat \<Rightarrow> nat"
  lib_jinja :: "string \<Rightarrow> render_context \<Rightarrow> string option"

text \<open>
  What one run finds around it: the files, the clock, the first draw of an unseeded
  generator, whether \<open>jinja2\<close> is installed, and how each step of the two publisher
  adapters ends. For Twitter: reading the credentials and building the clients;
  preparing and uploading the image; creating the post, which raises
  (\<^const>\<open>None\<close>) or returns the identifier in the response, if any. For Bluesky:
  reading the credentials and logging in, which raises or returns the handle, if any,
  and the DID; preparing and uploading the image; creating the post, which raises or
  returns the URI in the response, if any.
\<close>

record world =
  w_files :: fs
  w_now :: datetime
  w_os_randbelow :: "nat \<Rightarrow> nat"
  w_jinja2_installed :: bool
  w_twitter_init :: bool
  w_twitter_upload :: bool
  w_twitter_create :: "string option option"
  w_bluesky_login :: "(string option \<times> string) option"
  w_bluesky_upload :: bool
  w_bluesky_create :: "string option option"

text \<open>
  What a run leaves behind: how the process ends, what it did in order (the diagnostics
  printed to the error stream, the adapter steps attempted, the history saved), and the
  files. Prints to the standard output are not modelled.
\<close>

datatype status = Exit int | Uncaught uncaught

datatype diag =
    ManifestNotFound path
  | ManifestNotList
  | NoEntryForSetName string
  | NoEligibleSets int
  | MissingFields jobj
  | ImageNotFound path
  | TemplateRenderFailed
  | TwitterAuthNotFound path
  | TwitterInitFailed
  | TwitterUploadFailed
  | TwitterCreateFailed
  | BlueskyAuthNotFound path
  | BlueskyPostFailed

datatype step =
    TwitterInit | TwitterUpload | TwitterCreate
  | BlueskyRender | BlueskyLogin | BlueskyUpload | BlueskyCreate

datatype event = Stderr diag | Attempt step | SaveHistory path "jobj list"

text \<open>The saves among the events of a run, and the adapter steps among them.\<close>

fun saves :: "event list \<Rightarrow> (path \<times> jobj list) list" where
  "saves [] = []"
| "saves (SaveHistory p h # evs) = (p, h) # saves evs"
| "saves (ev # evs) = saves evs"

fun attempts :: "event list \<Rightarrow> step list" where
  "attempts [] = []"
| "attempts (Attempt s # evs) = s # attempts evs"
| "attempts (ev # evs) = attempts evs"

record outcome =
  status :: status
  events :: "event list"
  files_after :: fs

text \<open>Truthiness of an optional string.\<close>

definition truthy :: "string option \<Rightarrow> bool" where
  "truthy a = (case a of None \<Rightarrow> False | Some s \<Rightarrow> s \<noteq> [])"

text \<open>The slice \<open>s[:n]\<close>; a negative \<open>n\<close> counts from the end.\<close>

definition slice_to :: "int \<Rightarrow> 'a list \<Rightarrow> 'a list" where
  "slice_to n s = (if n \<ge> 0 then take (nat n) s else take (nat (int (length s) + n)) s)"

text \<open>
  \<open>_render_post_text\<close>: the template file is read and rendered, the result stripped and
  cut to \<open>max_len\<close> characters. \<^const>\<open>None\<close> where it raises.
\<close>

definition render_post_text ::
  "library \<Rightarrow> world \<Rightarrow> path \<Rightarrow> render_context \<Rightarrow> int \<Rightarrow> string option" where
  "render_post_text L W template_path ctx max_len =
     (if \<not> w_jinja2_installed W then None
      else
        (case w_files W template_path of
           None \<Rightarrow> None
         | Some text \<Rightarrow>
             (case lib_jinja L text ctx of
                None \<Rightarrow> None
              | Some out \<Rightarrow>
                  (let rendered = strip out
                   in if int (length rendered) > max_len
                      then Some (slice_to max_len rendered) else Some rendered))))"

text \<open>\<open>_normalized_set_name_for_match\<close>.\<close>

definition normalized_set_name_for_match :: "library \<Rightarrow> string option \<Rightarrow> string" where
  "normalized_set_name_for_match L name =
     lib_casefold L (normalize_quotes (lib_unescape L (strip (or_empty name))))"

text \<open>
  \<open>rng.choice(eligible)\<close> on a non-empty list: the generator is seeded with \<open>--seed\<close>
  when that is given, and drawn from once.
\<close>

definition rng_choice :: "library \<Rightarrow> world \<Rightarrow> string option \<Rightarrow> 'a list \<Rightarrow> uncaught + 'a" where
  "rng_choice L W seed xs =
     (let randbelow = (case seed of Some s \<Rightarrow> lib_seeded_randbelow L s
                                  | None \<Rightarrow> w_os_randbelow W);
          i = randbelow (length xs)
      in if i < length xs then Inr (xs ! i) else Inl IndexError)"

text \<open>
  The result of an early \<open>return\<close> or of an uncaught exception: an outcome with the
  files as they were found.
\<close>

definition halt :: "world \<Rightarrow> status \<Rightarrow> event list \<Rightarrow> outcome" where
  "halt W st evs = \<lparr>status = st, events = evs, files_after = w_files W\<rparr>"

text \<open>The Twitter adapter (lines 584 to 613): an exit status, or the post identifier.\<close>

definition twitter_block :: "world \<Rightarrow> path \<Rightarrow> (int \<times> event list) + (string option \<times> event list)" where
  "twitter_block W twitter_auth_path =
     (if \<not> exists_file (w_files W) twitter_auth_path
      then Inl (6, [Stderr (TwitterAuthNotFound twitter_auth_path)])
      else if \<not> w_twitter_init W
      then Inl (6, [Attempt TwitterInit, Stderr TwitterInitFailed])
      else if \<not> w_twitter_upload W
      then Inl (7, [Attempt TwitterInit, Attempt TwitterUpload, Stderr TwitterUploadFailed])
      else
        (case w_twitter_create W of
           None \<Rightarrow> Inl (8, [Attempt TwitterInit, Attempt TwitterUpload, Attempt TwitterCreate,
                            Stderr TwitterCreateFailed])
         | Some twitter_post_id \<Rightarrow>
             Inr (twitter_post_id,
                  [Attempt TwitterInit, Attempt TwitterUpload, Attempt TwitterCreate])))"

text \<open>
  The Bluesky adapter (lines 615 to 651): an exit status, or the URI and the web URL of
  the post. Everything after the check of the credentials file is in one \<open>try\<close>.
\<close>

definition bluesky_block ::
  "library \<Rightarrow> world \<Rightarrow> path \<Rightarrow> path \<Rightarrow> path \<Rightarrow> render_context \<Rightarrow>
   (int \<times> event list) + ((string option \<times> string option) \<times> event list)" where
  "bluesky_block L W bluesky_auth_path bluesky_template_path template_path template_context =
     (if \<not> exists_file (w_files W) bluesky_auth_path
      then Inl (10, [Stderr (BlueskyAuthNotFound bluesky_auth_path)])
      else
        (let bsky_template_to_use =
               (if exists_file (w_files W) bluesky_template_path then bluesky_template_path
                else template_path)
         in case render_post_text L W bsky_template_to_use
                   (template_context\<lparr>ctx_max_len := 300\<rparr>) 300 of
              None \<Rightarrow> Inl (11, [Attempt BlueskyRender, Stderr BlueskyPostFailed])
            | Some bluesky_text \<Rightarrow>
                (case w_bluesky_login W of
                   None \<Rightarrow> Inl (11, [Attempt BlueskyRender, Attempt BlueskyLogin,
                                     Stderr BlueskyPostFailed])
                 | Some (handle, did) \<Rightarrow>
                     if \<not> w_bluesky_upload W
                     then Inl (11, [Attempt BlueskyRender, Attempt BlueskyLogin,
                                    Attempt BlueskyUpload, Stderr BlueskyPostFailed])
                     else
                       (case w_bluesky_create W of
                          None \<Rightarrow> Inl (11, [Attempt BlueskyRender, Attempt BlueskyLogin,
                                            Attempt BlueskyUpload, Attempt BlueskyCreate,
                                            Stderr BlueskyPostFailed])
                        | Some uri \<Rightarrow>
                            (let bluesky_uri = (if truthy uri then uri else None);
                                 profile_ref = (if truthy handle then or_empty handle else did);
                                 bluesky_url =
                                   (case bluesky_uri of None \<Rightarrow> None
                                    | Some u \<Rightarrow> bluesky_web_url_from_at_uri u profile_ref)
                             in Inr ((bluesky_uri, bluesky_url),
                                     [Attempt BlueskyRender, Attempt BlueskyLogin,
                                      Attempt BlueskyUpload, Attempt BlueskyCreate]))))))"

text \<open>
  The history record of a real post (lines 653 to 661). An identifier that is \<open>None\<close>
  is stored as \<open>null\<close>, which reads like a missing key.
\<close>

definition new_record ::
  "library \<Rightarrow> world \<Rightarrow> string option \<Rightarrow> string option \<Rightarrow> string option \<Rightarrow>
   string \<Rightarrow> string \<Rightarrow> string \<Rightarrow> jobj" where
  "new_record L W twitter_post_id bluesky_uri bluesky_url filename set_name set_url =
     (Map.empty :: jobj)
       (''twitter_post_id'' := (if truthy twitter_post_id then twitter_post_id else None),
        ''bluesky_uri'' := bluesky_uri,
        ''bluesky_url'' := bluesky_url,
        ''posted_at'' \<mapsto> lib_isoformat L (w_now W),
        ''filename'' \<mapsto> filename,
        ''set_name'' \<mapsto> set_name,
        ''set_url'' \<mapsto> set_url)"

text \<open>The credentials file for Twitter (line 476): \<open>--twitter-auth\<close>, else \<open>--auth\<close>.\<close>

definition twitter_auth_path_of :: "args \<Rightarrow> path" where
  "twitter_auth_path_of A =
     (case arg_twitter_auth A of
        Some p \<Rightarrow> if p \<noteq> [] then p else arg_auth A
      | None \<Rightarrow> arg_auth A)"

text \<open>
  Lines 574 to 672: the adapters in turn, then the one history record, appended to the
  history and saved.
\<close>

definition publish ::
  "library \<Rightarrow> args \<Rightarrow> world \<Rightarrow> path \<Rightarrow> jobj list \<Rightarrow> path \<Rightarrow> render_context \<Rightarrow>
   string \<Rightarrow> string \<Rightarrow> string \<Rightarrow> outcome" where
  "publish L A W history_path history template_path template_context filename set_name set_url =
     (let twitter_auth_path = twitter_auth_path_of A;
          post_to_twitter = (arg_platform A = Twitter \<or> arg_platform A = Both);
          post_to_bluesky = (arg_platform A = Bluesky \<or> arg_platform A = Both)
      in case (if post_to_twitter then twitter_block W twitter_auth_path else Inr (None, [])) of
           Inl (code, evs) \<Rightarrow> halt W (Exit code) evs
         | Inr (twitter_post_id, evs1) \<Rightarrow>
             (case (if post_to_bluesky
                    then bluesky_block L W (arg_bluesky_auth A) (arg_bluesky_template A)
                           template_path template_context
                    else Inr ((None, None), [])) of
                Inl (code, evs2) \<Rightarrow> halt W (Exit code) (evs1 @ evs2)
              | Inr ((bluesky_uri, bluesky_url), evs2) \<Rightarrow>
                  (let rec = new_record L W twitter_post_id bluesky_uri bluesky_url
                               filename set_name set_url;
                       history' = history @ [rec]
                   in \<lparr>status = Exit 0,
                       events = evs1 @ evs2 @ [SaveHistory history_path history'],
                       files_after = save_json (lib_dumps L) history_path history' (w_files W)\<rparr>)))"

text \<open>
  Lines 521 to 572: the fields of the chosen entry, the image, the text of the post, and
  the dry run.
\<close>

definition after_choice ::
  "library \<Rightarrow> args \<Rightarrow> world \<Rightarrow> path \<Rightarrow> jobj list \<Rightarrow> path \<Rightarrow> jobj \<Rightarrow> outcome" where
  "after_choice L A W history_path history template_path chosen =
     (let filename = strip (or_empty (chosen ''filename''));
          set_name = normalize_quotes (lib_unescape L (strip (or_empty (chosen ''set_name''))));
          set_url = strip (or_empty (chosen ''set_url''));
          date_published = strip (or_empty (chosen ''date_published''));
          tags0 = strip (or_empty (chosen ''tags''));
          tags = (if tags0 \<noteq> [] then filter (\<lambda>c. c \<noteq> CHR ''-'') tags0 else tags0)
      in if filename = [] \<or> set_name = [] \<or> set_url = [] \<or> date_published = []
         then halt W (Exit 4) [Stderr (MissingFields chosen)]
         else
           (let image_path = lib_joinpath L (arg_images_dir A) filename
            in if \<not> exists_file (w_files W) image_path
               then halt W (Exit 5) [Stderr (ImageNotFound image_path)]
               else
                 (case lib_fromiso L date_published of
                    None \<Rightarrow> halt W (Uncaught (Raised ValueError)) []
                  | Some d \<Rightarrow>
                      (let published = lib_strftime L d;
                           template_context =
                             \<lparr>ctx_set_name = set_name, ctx_set_url = set_url,
                              ctx_date_published_iso = date_published,
                              ctx_published = published, ctx_tags = tags,
                              ctx_max_len = 280, ctx_fit_tags = fit_tags\<rparr>
                       in case render_post_text L W template_path template_context 280 of
                            None \<Rightarrow> halt W (Exit 9) [Stderr TemplateRenderFailed]
                          | Some post_text \<Rightarrow>
                              if arg_dry_run A then
                                (if arg_record_dry_run A then
                                   (let rec = (Map.empty :: jobj)
                                          (''twitter_post_id'' := None,
                                           ''posted_at'' \<mapsto> lib_isoformat L (w_now W),
                                           ''filename'' \<mapsto> filename,
                                           ''set_name'' \<mapsto> set_name,
                                           ''set_url'' \<mapsto> set_url);
                                        history' = history @ [rec]
                                    in \<lparr>status = Exit 0,
                                        events = [SaveHistory history_path history'],
                                        files_after = save_json (lib_dumps L) history_path history'
                                                  (w_files W)\<rparr>)
                                 else halt W (Exit 0) [])
                              else publish L A W history_path history template_path
                                     template_context filename set_name set_url))))"

text \<open>The history file that a run reads and writes (lines 478 to 484).\<close>

definition history_path_of :: "args \<Rightarrow> world \<Rightarrow> path" where
  "history_path_of A W =
     (if arg_history A = ''post_history.json'' \<and> \<not> exists_file (w_files W) (arg_history A)
         \<and> exists_file (w_files W) ''tweet_history.json''
      then ''tweet_history.json'' else arg_history A)"

text \<open>The template file that a run renders for Twitter (lines 479 to 490).\<close>

definition template_path_of :: "args \<Rightarrow> world \<Rightarrow> path" where
  "template_path_of A W =
     (if arg_template A = ''twitter_template.j2'' \<and> \<not> exists_file (w_files W) (arg_template A)
      then (case filter (exists_file (w_files W)) [''post_template.j2'', ''tweet_template.j2''] of
              [] \<Rightarrow> arg_template A
            | legacy_template # rest \<Rightarrow> legacy_template)
      else arg_template A)"

text \<open>Lines 474 to 519: the inputs and the selection; then the rest of \<open>main\<close>.\<close>

definition main :: "library \<Rightarrow> args \<Rightarrow> world \<Rightarrow> outcome" where
  "main L A W =
     (let manifest_path = arg_manifest A;
          history_path = history_path_of A W;
          template_path = template_path_of A W
      in if \<not> exists_file (w_files W) manifest_path
         then halt W (Exit 2) [Stderr (ManifestNotFound manifest_path)]
         else
           (case lib_loads L (or_empty (w_files W manifest_path)) of
              None \<Rightarrow> halt W (Uncaught JSONDecodeError) []
            | Some (JArray manifest) \<Rightarrow>
                (case load_history (lib_loads L) (w_files W) history_path of
                   Inl err \<Rightarrow> halt W (Uncaught err) []
                 | Inr history \<Rightarrow>
                     if truthy (arg_set_name A) then
                       (let target = normalized_set_name_for_match L (arg_set_name A);
                            matches = filter (\<lambda>e. normalized_set_name_for_match L
                                                     (Some (or_empty (e ''set_name''))) = target)
                                        manifest
                        in case matches of
                             [] \<Rightarrow> halt W (Exit 3)
                                     [Stderr (NoEntryForSetName (or_empty (arg_set_name A)))]
                           | chosen # rest \<Rightarrow>
                               after_choice L A W history_path history template_path chosen)
                     else
                       (case eligible_entries (lib_fromiso L) manifest history
                               (arg_threshold_days A) (w_now W) of
                          Inl err \<Rightarrow> halt W (Uncaught (Raised err)) []
                        | Inr eligible \<Rightarrow>
                            if eligible = []
                            then halt W (Exit 3) [Stderr (NoEligibleSets (arg_threshold_days A))]
                            else
                              (case rng_choice L W (arg_seed A) eligible of
                                 Inl err \<Rightarrow> halt W (Uncaught err) []
                               | Inr chosen \<Rightarrow>
                                   after_choice L A W history_path history template_path
                                     chosen)))
            | Some _ \<Rightarrow> halt W (Exit 2) [Stderr ManifestNotList]))"

subsection \<open>What a run did to the history\<close>

text \<open>
  A run wrote nothing: no save among its events, the files as they were found. A run
  wrote once: one save, of the history \<open>old\<close> with one record appended, to the path
  \<open>hp\<close>, and the files are those that \<open>_save_json\<close> leaves.
\<close>

definition no_write :: "world \<Rightarrow> outcome \<Rightarrow> bool" where
  "no_write W out = (saves (events out) = [] \<and> files_after out = w_files W)"


text \<open>The diagnostics that the publisher adapters print.\<close>

fun adapter_diag :: "diag \<Rightarrow> bool" where
  "adapter_diag (TwitterAuthNotFound p) = True"
| "adapter_diag TwitterInitFailed = True"
| "adapter_diag TwitterUploadFailed = True"
| "adapter_diag TwitterCreateFailed = True"
| "adapter_diag (BlueskyAuthNotFound p) = True"
| "adapter_diag BlueskyPostFailed = True"
| "adapter_diag d = False"

text \<open>
  The identifier that a history record stores for a post whose creation returned \<open>r\<close>:
  the identifier in the response when there is one.
\<close>

definition returned_id :: "string option option \<Rightarrow> string option" where
  "returned_id r = (case r of None \<Rightarrow> None | Some i \<Rightarrow> if truthy i then i else None)"

section \<open>Sample data for the worked examples\<close>

text \<open>
  Three timestamps as the scripts write them (\<open>now.isoformat()\<close> of a UTC time), one
  naive timestamp and two publication dates. \<open>iso_sample\<close> reads these six strings as
  \<open>fromisoformat\<close> does; the examples pass it no other string.
\<close>

definition jan01_late :: datetime where
  "jan01_late = \<lparr>year = 2024, month = 1, day = 1, hour = 23, minute = 30, second = 0,
                  microsecond = 0, utcoffset = Some 0\<rparr>"

definition jan02_early :: datetime where
  "jan02_early = \<lparr>year = 2024, month = 1, day = 2, hour = 0, minute = 5, second = 0,
                   microsecond = 0, utcoffset = Some 0\<rparr>"

definition mar31_early :: datetime where
  "mar31_early = \<lparr>year = 2024, month = 3, day = 31, hour = 0, minute = 10, second = 0,
                   microsecond = 0, utcoffset = Some 0\<rparr>"

definition jan03_naive :: datetime where
  "jan03_naive = \<lparr>year = 2024, month = 1, day = 3, hour = 0, minute = 0, second = 0,
                   microsecond = 0, utcoffset = None\<rparr>"

definition may01_2020 :: datetime where
  "may01_2020 = \<lparr>year = 2020, month = 5, day = 1, hour = 0, minute = 0, second = 0,
                  microsecond = 0, utcoffset = None\<rparr>"

definition jun01_2021 :: datetime where
  "jun01_2021 = \<lparr>year = 2021, month = 6, day = 1, hour = 0, minute = 0, second = 0,
                  microsecond = 0, utcoffset = None\<rparr>"

definition iso_sample :: "string \<Rightarrow> datetime option" where
  "iso_sample s =
     (if s = ''2024-01-01T23:30:00+00:00'' then Some jan01_late
      else if s = ''2024-01-02T00:05:00+00:00'' then Some jan02_early
      else if s = ''2024-03-31T00:10:00+00:00'' then Some mar31_early
      else if s = ''2024-01-03T00:00:00'' then Some jan03_naive
      else if s = ''2020-05-01T00:00:00'' then Some may01_2020
      else if s = ''2021-06-01T00:00:00'' then Some jun01_2021
      else None)"

text \<open>Two complete manifest entries, and one with neither \<open>set_url\<close> nor \<open>set_name\<close>.\<close>

definition entry_a :: jobj where
  "entry_a = [''filename'' \<mapsto> ''a.jpg'', ''set_name'' \<mapsto> ''alpha'', ''set_url'' \<mapsto> ''u/a'',
              ''date_published'' \<mapsto> ''2020-05-01T00:00:00'', ''tags'' \<mapsto> ''#one #two'']"

definition entry_b :: jobj where
  "entry_b = [''filename'' \<mapsto> ''b.jpg'', ''set_name'' \<mapsto> ''beta'', ''set_url'' \<mapsto> ''u/b'',
              ''date_published'' \<mapsto> ''2021-06-01T00:00:00'', ''tags'' \<mapsto> ''#three'']"

definition entry_blank :: jobj where
  "entry_blank = [''filename'' \<mapsto> ''c.jpg'']"

text \<open>
  History records: \<open>alpha\<close> posted on 1 January late in the evening, \<open>beta\<close> on
  2 January just after midnight, the same record of \<open>beta\<close> as the legacy script wrote it,
  a record of another set that shares the name \<open>alpha\<close>, and a record of \<open>alpha\<close>
  with a naive timestamp.
\<close>

definition hist_a :: jobj where
  "hist_a = [''set_name'' \<mapsto> ''alpha'', ''set_url'' \<mapsto> ''u/a'', ''filename'' \<mapsto> ''a.jpg'',
             ''posted_at'' \<mapsto> ''2024-01-01T23:30:00+00:00'']"

definition hist_b :: jobj where
  "hist_b = [''set_name'' \<mapsto> ''beta'', ''set_url'' \<mapsto> ''u/b'', ''filename'' \<mapsto> ''b.jpg'',
             ''posted_at'' \<mapsto> ''2024-01-02T00:05:00+00:00'']"

definition hist_b_legacy :: jobj where
  "hist_b_legacy = [''set_name'' \<mapsto> ''beta'', ''set_url'' \<mapsto> ''u/b'', ''filename'' \<mapsto> ''b.jpg'',
                    ''tweeted_at'' \<mapsto> ''2024-01-02T00:05:00+00:00'']"

definition hist_namesake :: jobj where
  "hist_namesake = [''set_name'' \<mapsto> ''alpha'', ''set_url'' \<mapsto> ''u/z'', ''filename'' \<mapsto> ''z.jpg'',
                    ''posted_at'' \<mapsto> ''2024-03-31T00:10:00+00:00'']"

definition hist_a_naive :: jobj where
  "hist_a_naive = [''set_name'' \<mapsto> ''alpha'', ''set_url'' \<mapsto> ''u/a'', ''filename'' \<mapsto> ''a.jpg'',
                   ''posted_at'' \<mapsto> ''2024-01-03T00:00:00'']"

text \<open>
  Stand-ins for the library on the sample run. The sample files hold short texts that
  name their documents; \<open>loads_sample\<close> reads them and \<open>dumps_sample\<close> writes one
  line per record. The sample names hold no HTML entity and no capital letter, so
  \<open>html.unescape\<close> and \<open>casefold\<close> leave them as they are. The sample template is
  the set name and URL, a blank line, and the tags that \<open>fit_tags\<close> keeps.
\<close>

definition loads_sample :: "string \<Rightarrow> json option" where
  "loads_sample text =
     (if text = ''[a,b]'' then Some (JArray [entry_a, entry_b])
      else if text = ''[ha,hb]'' then Some (JArray [hist_a, hist_b])
      else if text = ''[]'' then Some (JArray [])
      else if text = ''{}'' then Some (JObject Map.empty)
      else None)"

definition dumps_sample :: "jobj list \<Rightarrow> string" where
  "dumps_sample data =
     concat (map (\<lambda>r. or_empty (r ''set_url'') @ '' '' @ or_empty (r ''posted_at'') @ '';'') data)"

definition isoformat_sample :: "datetime \<Rightarrow> string" where
  "isoformat_sample d = (if d = mar31_early then ''2024-03-31T00:10:00+00:00'' else ''other'')"

definition strftime_sample :: "datetime \<Rightarrow> string" where
  "strftime_sample d = (if d = may01_2020 then ''May 01, 2020'' else ''Jun 01, 2021'')"

definition jinja_sample :: "string \<Rightarrow> render_context \<Rightarrow> string option" where
  "jinja_sample text ctx =
     (let base = ctx_set_name ctx @ '' '' @ ctx_set_url ctx
      in Some (base @ nl2 @ ctx_fit_tags ctx base (ctx_tags ctx) (ctx_max_len ctx)))"

definition lib_sample :: library where
  "lib_sample =
     \<lparr>lib_loads = loads_sample, lib_dumps = dumps_sample, lib_fromiso = iso_sample,
      lib_isoformat = isoformat_sample, lib_strftime = strftime_sample,
      lib_unescape = (\<lambda>s. s), lib_casefold = (\<lambda>s. s),
      lib_joinpath = (\<lambda>d f. d @ ''/'' @ f),
      lib_seeded_randbelow = (\<lambda>s n. length s mod n),
      lib_jinja = jinja_sample\<rparr>"

text \<open>
  A sample run: both platforms, threshold 90, seed \<open>42\<close>, on the last day of March
  2024; every file in place and every adapter step succeeding.
\<close>

definition args_sample :: args where
  "args_sample =
     \<lparr>arg_manifest = ''m.json'', arg_images_dir = ''img'', arg_auth = ''tw.json'',
      arg_twitter_auth = None, arg_bluesky_auth = ''bs.json'', arg_history = ''h.json'',
      arg_threshold_days = 90, arg_set_name = None, arg_seed = Some ''42'',
      arg_template = ''t.j2'', arg_bluesky_template = ''b.j2'', arg_max_image_mb = 5,
      arg_platform = Both, arg_dry_run = False, arg_record_dry_run = False\<rparr>"

definition files_sample :: fs where
  "files_sample =
     [''m.json'' \<mapsto> ''[a,b]'', ''h.json'' \<mapsto> ''[ha,hb]'', ''t.j2'' \<mapsto> ''T'',
      ''img/a.jpg'' \<mapsto> ''A'', ''img/b.jpg'' \<mapsto> ''B'', ''tw.json'' \<mapsto> ''{}'',
      ''bs.json'' \<mapsto> ''{}'']"

definition world_sample :: world where
  "world_sample =
     \<lparr>w_files = files_sample, w_now = mar31_early, w_os_randbelow = (\<lambda>n. 0),
      w_jinja2_installed = True, w_twitter_init = True, w_twitter_upload = True,
      w_twitter_create = Some (Some ''1001''),
      w_bluesky_login = Some (Some ''rin.example'', ''did:plc:abc''),
      w_bluesky_upload = True,
      w_bluesky_create = Some (Some ''at://did:plc:abc/app.bsky.feed.post/k1'')\<rparr>"

text \<open>The record that the sample run appends to the history.\<close>

definition rec_sample :: jobj where
  "rec_sample =
     [''twitter_post_id'' \<mapsto> ''1001'',
      ''bluesky_uri'' \<mapsto> ''at://did:plc:abc/app.bsky.feed.post/k1'',
      ''bluesky_url'' \<mapsto> ''https://bsky.app/profile/rin.example/post/k1'',
      ''posted_at'' \<mapsto> ''2024-03-31T00:10:00+00:00'',
      ''filename'' \<mapsto> ''a.jpg'', ''set_name'' \<mapsto> ''alpha'', ''set_url'' \<mapsto> ''u/a'']"

text \<open>
  The same run with the creation of the Twitter post failing, with the creation of the
  Bluesky post failing, and with another unseeded generator.
\<close>

definition world_twitter_down :: world where
  "world_twitter_down = world_sample\<lparr>w_twitter_create := None\<rparr>"

definition world_bluesky_down :: world where
  "world_bluesky_down = world_sample\<lparr>w_bluesky_create := None\<rparr>"

definition world_other_rng :: world where
  "world_other_rng = world_sample\<lparr>w_os_randbelow := (\<lambda>n. n - 1)\<rparr>"

text \<open>The sample command line with a set name that no entry has, and with a long threshold.\<close>

definition args_no_such_name :: args where
  "args_no_such_name = args_sample\<lparr>arg_set_name := Some ''gamma''\<rparr>"

definition args_long_threshold :: args where
  "args_long_threshold = args_sample\<lparr>arg_threshold_days := 1000\<rparr>"

definition args_dry_record :: args where
  "args_dry_record = args_sample\<lparr>arg_dry_run := True, arg_record_dry_run := True\<rparr>"

section \<open>Properties of the tag-fitting helper\<close>

text \<open>
  The loop keeps a prefix of the tag list: the longest one whose every non-empty prefix
  passes the length test.
\<close>

lemma fit_loop_greedy:
  "\<exists>n\<le>length ts. fit_loop base m kept ts = kept @ take n ts
      \<and> (\<forall>k. 0 < k \<and> k \<le> n \<longrightarrow> fits base m (kept @ take k ts))
      \<and> (n < length ts \<longrightarrow> \<not> fits base m (kept @ take (Suc n) ts))"
proof (induction ts arbitrary: kept)
  case Nil
  show ?case by simp
next
  case (Cons t ts)
  show ?case
  proof (cases "fits base m (kept @ [t])")
    case False
    then have "fit_loop base m kept (t # ts) = kept" by (simp add: fits_def)
    with False show ?thesis by (intro exI [of _ 0]) simp
  next
    case True
    then have step: "fit_loop base m kept (t # ts) = fit_loop base m (kept @ [t]) ts"
      by (simp add: fits_def)
    from Cons.IH [of "kept @ [t]"] obtain n where n: "n \<le> length ts"
      "fit_loop base m (kept @ [t]) ts = (kept @ [t]) @ take n ts"
      "\<forall>k. 0 < k \<and> k \<le> n \<longrightarrow> fits base m ((kept @ [t]) @ take k ts)"
      "n < length ts \<longrightarrow> \<not> fits base m ((kept @ [t]) @ take (Suc n) ts)"
      by blast
    have pre: "fits base m (kept @ take k (t # ts))" if "0 < k" "k \<le> Suc n" for k
    proof (cases k)
      case 0
      with that show ?thesis by simp
    next
      case (Suc j)
      show ?thesis
      proof (cases "j = 0")
        case True
        with Suc \<open>fits base m (kept @ [t])\<close> show ?thesis by simp
      next
        case False
        with Suc that n(3) show ?thesis by simp
      qed
    qed
    show ?thesis
      using n(1,2,4) step pre by (intro exI [of _ "Suc n"]) simp
  qed
qed

text \<open>Splitting gives tokens, and splitting the blank-joined tokens gives them back.\<close>

lemma split_acc_token:
  "\<forall>c \<in> set t. \<not> isspace c \<Longrightarrow> split_acc w (t @ s) = split_acc (w @ t) s"
  by (induction t arbitrary: w) simp_all

lemma split_acc_tokens:
  "\<forall>c \<in> set w. \<not> isspace c \<Longrightarrow> t \<in> set (split_acc w s) \<Longrightarrow> token t"
proof (induction w s rule: split_acc.induct)
  case (1 w)
  then show ?case by (simp add: token_def split: if_splits)
next
  case (2 w c cs)
  show ?case
  proof (cases "isspace c")
    case True
    with 2 show ?thesis by (cases "w = []") (auto simp: token_def)
  next
    case False
    with 2 show ?thesis by simp
  qed
qed

lemma split_tokens: "t \<in> set (split s) \<Longrightarrow> token t"
  using split_acc_tokens [of "[]" t s] by (simp add: split_def)

lemma isspace_blank: "isspace CHR '' ''"
  by (simp add: isspace_def)

lemma split_acc_join:
  "\<forall>t \<in> set ts. token t \<Longrightarrow> \<forall>c \<in> set w. \<not> isspace c \<Longrightarrow> ts \<noteq> [] \<Longrightarrow>
     split_acc w (join '' '' ts) = (w @ hd ts) # tl ts"
proof (induction ts arbitrary: w)
  case Nil
  then show ?case by simp
next
  case (Cons x ts)
  have x: "\<forall>c \<in> set x. \<not> isspace c" "x \<noteq> []"
    using Cons.prems(1) by (simp_all add: token_def)
  show ?case
  proof (cases ts)
    case Nil
    have "split_acc w (x @ []) = split_acc (w @ x) []"
      using x(1) by (rule split_acc_token)
    with x Nil show ?thesis by simp
  next
    case (Cons y ys)
    have "split_acc w (x @ '' '' @ join '' '' ts) = split_acc (w @ x) ('' '' @ join '' '' ts)"
      using x(1) by (rule split_acc_token)
    also have "\<dots> = (w @ x) # split_acc [] (join '' '' ts)"
      using x by (simp add: isspace_blank)
    also have "split_acc [] (join '' '' ts) = ts"
      using Cons.IH [of "[]"] Cons.prems(1) Cons by simp
    finally show ?thesis using Cons by simp
  qed
qed

lemma split_join: "\<forall>t \<in> set ts. token t \<Longrightarrow> split (join '' '' ts) = ts"
  by (cases "ts = []") (simp_all add: split_def split_acc_join)

lemma hashtags_tokens: "t \<in> set (take n (hashtags tags)) \<Longrightarrow> token t"
  by (auto simp: hashtags_def dest!: in_set_takeD intro: split_tokens)

text \<open>
  Claim C5, as the code has it. When the stripped tag string fits as a whole
  (\<open>base + "\n\n" + tags\<close> within \<open>max_len\<close>), \<open>_fit_tags\<close> returns it unchanged, whatever
  its words are. In every other case the result is a prefix of the hashtags of the tag
  string, in their order and joined by single blanks; splitting the result gives exactly
  those hashtags, so none is cut; every non-empty prefix up to the kept one passes the
  length test; and the hashtag after the kept prefix, when there is one, fails it: the
  loop stops there and keeps nothing that comes later.
\<close>

theorem fit_tags_greedy_prefix:
  "(strip tags \<noteq> [] \<and> int (length (base @ nl2 @ strip tags)) \<le> max_len \<longrightarrow>
      fit_tags base tags max_len = strip tags) \<and>
   (\<not> (strip tags \<noteq> [] \<and> int (length (base @ nl2 @ strip tags)) \<le> max_len) \<longrightarrow>
      (\<exists>n\<le>length (hashtags tags).
          fit_tags base tags max_len = join '' '' (take n (hashtags tags)) \<and>
          split (fit_tags base tags max_len) = take n (hashtags tags) \<and>
          (\<forall>k. 0 < k \<and> k \<le> n \<longrightarrow> fits base max_len (take k (hashtags tags))) \<and>
          (n < length (hashtags tags) \<longrightarrow>
             \<not> fits base max_len (take (Suc n) (hashtags tags)))))"
proof (intro conjI impI)
  assume "strip tags \<noteq> [] \<and> int (length (base @ nl2 @ strip tags)) \<le> max_len"
  then show "fit_tags base tags max_len = strip tags"
    by (simp add: fit_tags_def Let_def)
next
  assume over: "\<not> (strip tags \<noteq> [] \<and> int (length (base @ nl2 @ strip tags)) \<le> max_len)"
  let ?hs = "hashtags tags"
  show "\<exists>n\<le>length ?hs.
          fit_tags base tags max_len = join '' '' (take n ?hs) \<and>
          split (fit_tags base tags max_len) = take n ?hs \<and>
          (\<forall>k. 0 < k \<and> k \<le> n \<longrightarrow> fits base max_len (take k ?hs)) \<and>
          (n < length ?hs \<longrightarrow> \<not> fits base max_len (take (Suc n) ?hs))"
  proof (cases "strip tags = []")
    case True
    then have "?hs = []" "fit_tags base tags max_len = []"
      by (simp_all add: hashtags_def split_def fit_tags_def)
    then show ?thesis by (simp add: split_def)
  next
    case False
    with over have res: "fit_tags base tags max_len = join '' '' (fit_loop base max_len [] ?hs)"
      by (simp add: fit_tags_def Let_def hashtags_def)
    from fit_loop_greedy [of ?hs base max_len "[]"] obtain n where n:
      "n \<le> length ?hs" "fit_loop base max_len [] ?hs = take n ?hs"
      "\<forall>k. 0 < k \<and> k \<le> n \<longrightarrow> fits base max_len (take k ?hs)"
      "n < length ?hs \<longrightarrow> \<not> fits base max_len (take (Suc n) ?hs)"
      by auto
    have "split (join '' '' (take n ?hs)) = take n ?hs"
      by (rule split_join) (simp add: hashtags_tokens)
    with res n show ?thesis by auto
  qed
qed

theorem fit_tags_greedy_prefix_witness:
  "fit_tags ''hello'' '' #a x #bb '' 100 = ''#a x #bb'' \<and>
   fit_tags ''hello'' ''#a #bb #ccc #d'' 16 = ''#a #bb'' \<and>
   fits ''hello'' 16 [''#a'', ''#bb'', ''#d''] \<and>
   (\<exists>n\<le>4. fit_tags ''hello'' ''#a #bb #ccc #d'' 16 = join '' '' (take n (hashtags ''#a #bb #ccc #d'')))"
proof -
  have fit: "strip '' #a x #bb '' \<noteq> [] \<and> int (length (''hello'' @ nl2 @ strip '' #a x #bb '')) \<le> 100"
    by (simp add: strip_def isspace_def nl2_def)
  have over: "\<not> (strip ''#a #bb #ccc #d'' \<noteq> [] \<and>
                  int (length (''hello'' @ nl2 @ strip ''#a #bb #ccc #d'')) \<le> 16)"
    by (simp add: strip_def isspace_def nl2_def)
  have len: "length (hashtags ''#a #bb #ccc #d'') = 4"
    by (simp add: hashtags_def strip_def isspace_def split_def)
  from fit fit_tags_greedy_prefix [of "'' #a x #bb ''" "''hello''" 100]
  have "fit_tags ''hello'' '' #a x #bb '' 100 = strip '' #a x #bb ''" by blast
  moreover from over fit_tags_greedy_prefix [of "''#a #bb #ccc #d''" "''hello''" 16]
  have "\<exists>n\<le>length (hashtags ''#a #bb #ccc #d'').
          fit_tags ''hello'' ''#a #bb #ccc #d'' 16 = join '' '' (take n (hashtags ''#a #bb #ccc #d''))"
    by blast
  moreover have "fit_tags ''hello'' ''#a #bb #ccc #d'' 16 = ''#a #bb''"
    by (simp add: fit_tags_def strip_def isspace_def split_def nl2_def)
  moreover have "fits ''hello'' 16 [''#a'', ''#bb'', ''#d'']"
    by (simp add: fits_def nl2_def)
  ultimately show ?thesis
    using len by (simp add: strip_def isspace_def)
qed

text \<open>
  Claim C5 as the specification states it, for every tag string, fails where the whole
  string fits and holds a word that is no hashtag: the result is then not a prefix of the
  hashtags.
\<close>

theorem fit_tags_prefix_counterexample:
  "fit_tags [] ''x #a'' 100 = ''x #a'' \<and>
   \<not> prefix (split (fit_tags [] ''x #a'' 100)) (hashtags ''x #a'')"
  by (simp add: fit_tags_def strip_def isspace_def split_def nl2_def hashtags_def)

section \<open>Properties of the eligibility engine\<close>


text \<open>\<open>_days_ago\<close> reads the calendar date of its arguments and nothing else.\<close>

lemma days_ago_date_only:
  "year ts' = year ts \<Longrightarrow> month ts' = month ts \<Longrightarrow> day ts' = day ts \<Longrightarrow>
   year now' = year now \<Longrightarrow> month now' = month now \<Longrightarrow> day now' = day now \<Longrightarrow>
     days_ago ts' now' = days_ago ts now"
  by (simp add: days_ago_def toordinal_def)





text \<open>The manifest loop is a filter.\<close>

lemma eligible_loop_filter:
  "eligible_loop last_seen th now eligible es =
     eligible @ filter (eligible_now last_seen th now) es"
  by (induction es arbitrary: eligible)
     (simp_all add: eligible_now_def Let_def split: option.splits)

lemma eligible_with_Inr:
  "eligible_with ts_of fromiso manifest history th now = Inr el \<longleftrightarrow>
     (\<exists>last_seen. last_loop ts_of fromiso Map.empty history = Inr last_seen
         \<and> el = filter (eligible_now last_seen th now) manifest)"
  by (auto simp: eligible_with_def eligible_loop_filter split: sum.splits)

text \<open>
  The engine returns a list whenever the timestamps it reads are all aware, as those
  written by the scripts are; it raises only on a naive timestamp meeting an aware one.
\<close>

lemma last_loop_returns:
  "\<forall>h \<in> set hs. \<forall>w. stamp ts_of fromiso h = Some w \<longrightarrow> utcoffset w \<noteq> None \<Longrightarrow>
   \<forall>k w. last_seen k = Some w \<longrightarrow> utcoffset w \<noteq> None \<Longrightarrow>
     \<exists>last_seen'. last_loop ts_of fromiso last_seen hs = Inr last_seen'"
proof (induction hs arbitrary: last_seen)
  case Nil
  show ?case by simp
next
  case (Cons h hs)
  have rest: "\<forall>h \<in> set hs. \<forall>w. stamp ts_of fromiso h = Some w \<longrightarrow> utcoffset w \<noteq> None"
    using Cons.prems(1) by simp
  show ?case
  proof (cases "stamp ts_of fromiso h")
    case None
    then have "last_loop ts_of fromiso last_seen (h # hs) = last_loop ts_of fromiso last_seen hs"
      by (auto simp: stamp_def split: option.splits if_splits)
    with Cons.IH [OF rest Cons.prems(2)] show ?thesis by simp
  next
    case (Some w)
    then obtain ts where ts: "ts_of h = Some ts" "hist_key h \<noteq> []" "ts \<noteq> []" "fromiso ts = Some w"
      by (auto simp: stamp_def split: option.splits if_splits)
    from Some Cons.prems(1) have w: "utcoffset w \<noteq> None" by simp
    with Cons.prems(2)
    have upd: "\<forall>k v. (last_seen(hist_key h \<mapsto> w)) k = Some v \<longrightarrow> utcoffset v \<noteq> None"
      by simp
    show ?thesis
    proof (cases "last_seen (hist_key h)")
      case None
      with ts have step: "last_loop ts_of fromiso last_seen (h # hs) =
          last_loop ts_of fromiso (last_seen(hist_key h \<mapsto> w)) hs"
        by simp
      show ?thesis unfolding step
        by (rule Cons.IH [OF rest upd])
    next
      case old: (Some old)
      with Cons.prems(2) have "utcoffset old \<noteq> None" by blast
      with w obtain b where b: "dt_gt w old = Inr b"
        by (auto simp: dt_gt_def split: option.splits)
      show ?thesis
      proof (cases b)
        case True
        with b ts old have step: "last_loop ts_of fromiso last_seen (h # hs) =
            last_loop ts_of fromiso (last_seen(hist_key h \<mapsto> w)) hs"
          by simp
        show ?thesis unfolding step
          by (rule Cons.IH [OF rest upd])
      next
        case False
        with b ts old have step: "last_loop ts_of fromiso last_seen (h # hs) =
            last_loop ts_of fromiso last_seen hs"
          by simp
        show ?thesis unfolding step
          by (rule Cons.IH [OF rest Cons.prems(2)])
      qed
    qed
  qed
qed

lemma eligible_entries_returns:
  "\<forall>h \<in> set history. \<forall>w. stamp ts_post fromiso h = Some w \<longrightarrow> utcoffset w \<noteq> None \<Longrightarrow>
     \<exists>el. eligible_entries fromiso manifest history threshold_days now = Inr el"
  using last_loop_returns [of history ts_post fromiso Map.empty]
  by (auto simp: eligible_entries_def eligible_with_def)


lemmas text_defs = strip_def isspace_def split_def nl2_def py_or_def or_empty_def

lemmas date_defs = days_ago_def toordinal_def days_before_year_def days_before_month_def
  days_in_month_def is_leap_def naive_us_def instant_def dt_gt_def

lemmas engine_defs = eligible_entries_def eligible_entries_tweet_def eligible_with_def
  hist_key_def ts_post_def ts_tweet_def entry_key_def stamp_def stamps_def

lemmas sample_defs = iso_sample_def jan01_late_def jan02_early_def mar31_early_def
  jan03_naive_def may01_2020_def jun01_2021_def entry_a_def entry_b_def entry_blank_def hist_a_def hist_b_def
  hist_b_legacy_def hist_namesake_def hist_a_naive_def

text \<open>
  A naive timestamp recorded under a key that holds an aware one: the comparison raises,
  and the exception leaves the engine.
\<close>

lemma naive_meets_aware_raises:
  "eligible_entries iso_sample [entry_a] [hist_a, hist_a_naive] 90 mar31_early = Inl TypeError"
  by (simp add: engine_defs text_defs date_defs sample_defs)






text \<open>
  Claim C8. The list that the engine returns is the manifest filtered by the test of the
  manifest loop, against the index built from the history: a subsequence of the manifest,
  its entries in manifest order.
\<close>

theorem eligible_manifest_order:
  assumes run: "eligible_entries fromiso manifest history threshold_days now = Inr el"
  shows "subseq el manifest \<and>
         (\<exists>last_seen. last_loop ts_post fromiso Map.empty history = Inr last_seen \<and>
             el = filter (eligible_now last_seen threshold_days now) manifest)"
proof -
  from run obtain last_seen where
    ls: "last_loop ts_post fromiso Map.empty history = Inr last_seen"
    and el: "el = filter (eligible_now last_seen threshold_days now) manifest"
    by (auto simp: eligible_entries_def eligible_with_Inr)
  from el have "subseq el manifest" by simp
  with ls el show ?thesis by blast
qed

theorem eligible_manifest_order_witness:
  "eligible_entries iso_sample [entry_b, entry_blank, entry_a] [hist_a, hist_b] 89 mar31_early
     = Inr [entry_b, entry_a] \<and>
   subseq [entry_b, entry_a] [entry_b, entry_blank, entry_a]"
proof -
  have run: "eligible_entries iso_sample [entry_b, entry_blank, entry_a] [hist_a, hist_b] 89
               mar31_early = Inr [entry_b, entry_a]"
    by (simp add: engine_defs text_defs date_defs sample_defs)
  from eligible_manifest_order [OF run] run show ?thesis by simp
qed

text \<open>The history loop reads a record through \<open>ts_of\<close> only.\<close>

lemma last_loop_cong:
  "\<forall>h \<in> set hs. ts_of h = ts_of' h \<Longrightarrow>
     last_loop ts_of fromiso last_seen hs = last_loop ts_of' fromiso last_seen hs"
proof (induction hs arbitrary: last_seen)
  case Nil
  show ?case by simp
next
  case (Cons h hs)
  then have h: "ts_of h = ts_of' h"
    and IH: "\<And>m. last_loop ts_of fromiso m hs = last_loop ts_of' fromiso m hs"
    by simp_all
  show ?case
    by (simp add: h IH Let_def split: option.splits sum.splits bool.splits)
qed

text \<open>
  Claim C10. On a history whose records carry no \<open>posted_at\<close>, the engine of
  \<open>rin_throwback_post.py\<close> and the engine of \<open>rin_throwback_tweet.py\<close> give the same
  result, be it a list or the exception: the legacy \<open>tweeted_at\<close> timestamps count.
\<close>

theorem legacy_history_equivalence:
  assumes legacy: "\<forall>h \<in> set history. h ''posted_at'' = None"
  shows "eligible_entries fromiso manifest history threshold_days now
           = eligible_entries_tweet fromiso manifest history threshold_days now"
proof -
  from legacy have "\<forall>h \<in> set history. ts_post h = ts_tweet h"
    by (auto simp: ts_post_def ts_tweet_def py_or_def)
  then have "last_loop ts_post fromiso Map.empty history
           = last_loop ts_tweet fromiso Map.empty history"
    by (rule last_loop_cong)
  then show ?thesis
    by (simp add: eligible_entries_def eligible_entries_tweet_def eligible_with_def)
qed

theorem legacy_history_equivalence_witness:
  "hist_b_legacy ''posted_at'' = None \<and>
   eligible_entries iso_sample [entry_a, entry_b] [hist_b_legacy] 90 mar31_early = Inr [entry_a] \<and>
   eligible_entries_tweet iso_sample [entry_a, entry_b] [hist_b_legacy] 90 mar31_early
     = Inr [entry_a]"
proof -
  have legacy: "\<forall>h \<in> set [hist_b_legacy]. h ''posted_at'' = None"
    by (simp add: sample_defs)
  have run: "eligible_entries_tweet iso_sample [entry_a, entry_b] [hist_b_legacy] 90 mar31_early
               = Inr [entry_a]"
    by (simp add: engine_defs text_defs date_defs sample_defs)
  from legacy_history_equivalence [OF legacy, of iso_sample "[entry_a, entry_b]" 90 mar31_early]
    run legacy
  show ?thesis by simp
qed

section \<open>Properties of the persistent store\<close>

lemma tmp_path_neq: "tmp_path p \<noteq> p"
  by (simp add: tmp_path_def)

lemma save_json_ops_length: "length (save_json_ops dumps p data) = 5"
  by (simp add: save_json_ops_def Let_def)

text \<open>The files after each prefix of the five operations of a save.\<close>

lemma save_json_crashed_cases:
  "save_json_crashed 0 dumps p data files = files"
  "save_json_crashed 1 dumps p data files = files"
  "save_json_crashed (Suc 0) dumps p data files = files"
  "save_json_crashed 2 dumps p data files = files(tmp_path p \<mapsto> [])"
  "save_json_crashed 3 dumps p data files = files(tmp_path p \<mapsto> dumps data)"
  "save_json_crashed 4 dumps p data files = files(tmp_path p \<mapsto> dumps data @ [CHR 0x0A])"
  "save_json_crashed 5 dumps p data files =
     (files(p \<mapsto> dumps data @ [CHR 0x0A]))(tmp_path p := None)"
  by (simp_all add: save_json_crashed_def save_json_ops_def run_ops_def Let_def
        tmp_path_neq numeral_eq_Suc fun_upd_twist)

lemma save_json_complete:
  "save_json dumps p data files = save_json_crashed 5 dumps p data files"
  by (simp add: save_json_def save_json_crashed_def save_json_ops_def Let_def)

lemma less_5_cases: "k < 5 \<Longrightarrow> k = 0 \<or> k = 1 \<or> k = 2 \<or> k = 3 \<or> k = (4::nat)"
  by arith

text \<open>
  Claim C4. A save is five operations, the rename over the original being the last. At
  every point before the rename the original file is what it was; once the temporary
  sibling is written in full (four operations) it holds the whole JSON text and the line
  feed; after the rename the original holds that text and the sibling is gone. No other
  file is touched.
\<close>

theorem save_json_atomic:
  "(\<forall>k. k < 5 \<longrightarrow> save_json_crashed k dumps p data files p = files p) \<and>
   save_json_crashed 4 dumps p data files (tmp_path p) = Some (dumps data @ [CHR 0x0A]) \<and>
   save_json_ops dumps p data =
     butlast (save_json_ops dumps p data) @ [Replace (tmp_path p) p] \<and>
   save_json dumps p data files p = Some (dumps data @ [CHR 0x0A]) \<and>
   save_json dumps p data files (tmp_path p) = None \<and>
   (\<forall>q. q \<noteq> p \<and> q \<noteq> tmp_path p \<longrightarrow> save_json dumps p data files q = files q)"
proof -
  have before: "save_json_crashed k dumps p data files p = files p" if "k < 5" for k
    using less_5_cases [OF that] tmp_path_neq [of p]
    by (auto simp: save_json_crashed_cases)
  have order: "save_json_ops dumps p data =
      butlast (save_json_ops dumps p data) @ [Replace (tmp_path p) p]"
    by (simp add: save_json_ops_def Let_def)
  have finished: "save_json dumps p data files p = Some (dumps data @ [CHR 0x0A])"
    "save_json dumps p data files (tmp_path p) = None"
    using tmp_path_neq [of p] by (simp_all add: save_json_complete save_json_crashed_cases)
  have others: "save_json dumps p data files q = files q" if "q \<noteq> p \<and> q \<noteq> tmp_path p" for q
    using that by (simp add: save_json_complete save_json_crashed_cases)
  from before order finished others show ?thesis
    by (simp add: save_json_crashed_cases)
qed

theorem save_json_atomic_witness:
  "files_sample ''h.json'' = Some ''[ha,hb]'' \<and>
   save_json_crashed 4 dumps_sample ''h.json'' [hist_a] files_sample ''h.json''
     = Some ''[ha,hb]'' \<and>
   save_json_crashed 4 dumps_sample ''h.json'' [hist_a] files_sample ''h.json.tmp''
     = Some (''u/a 2024-01-01T23:30:00+00:00;'' @ [CHR 0x0A]) \<and>
   save_json dumps_sample ''h.json'' [hist_a] files_sample ''h.json''
     = Some (''u/a 2024-01-01T23:30:00+00:00;'' @ [CHR 0x0A]) \<and>
   save_json dumps_sample ''h.json'' [hist_a] files_sample ''h.json.tmp'' = None \<and>
   save_json dumps_sample ''h.json'' [hist_a] files_sample ''m.json'' = files_sample ''m.json''"
proof -
  have before: "(4::nat) < 5" by simp
  have other: "''m.json'' \<noteq> ''h.json'' \<and> ''m.json'' \<noteq> tmp_path ''h.json''"
    by (simp add: tmp_path_def)
  have tmp: "tmp_path ''h.json'' = ''h.json.tmp''"
    by (simp add: tmp_path_def)
  have dumped: "dumps_sample [hist_a] = ''u/a 2024-01-01T23:30:00+00:00;''"
    by (simp add: dumps_sample_def hist_a_def or_empty_def)
  have orig: "files_sample ''h.json'' = Some ''[ha,hb]''"
    by (simp add: files_sample_def)
  from save_json_atomic [of dumps_sample "''h.json''" "[hist_a]" files_sample] before other
  show ?thesis
    unfolding tmp dumped by (simp add: orig)
qed

section \<open>Properties of the run orchestrator\<close>

lemma saves_append: "saves (xs @ ys) = saves xs @ saves ys"
  by (induction xs rule: saves.induct) simp_all

lemma attempts_append: "attempts (xs @ ys) = attempts xs @ attempts ys"
  by (induction xs rule: attempts.induct) simp_all

lemma stderr_only:
  "\<forall>ev \<in> set evs. \<exists>d. ev = Stderr d \<Longrightarrow> saves evs = [] \<and> attempts evs = []"
  by (induction evs) auto

text \<open>The two adapters: what they return and what they leave among the events.\<close>

lemma twitter_block_Inl:
  "twitter_block W p = Inl (c, evs) \<Longrightarrow>
     saves evs = [] \<and> c \<in> {6, 7, 8} \<and>
     (Stderr TwitterUploadFailed \<in> set evs \<longrightarrow>
        c = 7 \<and> attempts evs = [TwitterInit, TwitterUpload]) \<and>
     (Stderr TwitterCreateFailed \<in> set evs \<longrightarrow>
        c = 8 \<and> attempts evs = [TwitterInit, TwitterUpload, TwitterCreate]) \<and>
     Stderr BlueskyPostFailed \<notin> set evs"
  by (auto simp: twitter_block_def split: if_splits option.splits)

lemma twitter_block_Inr:
  "twitter_block W p = Inr (tid, evs) \<Longrightarrow>
     w_twitter_create W = Some tid \<and>
     evs = [Attempt TwitterInit, Attempt TwitterUpload, Attempt TwitterCreate]"
  by (auto simp: twitter_block_def split: if_splits option.splits)

lemma bluesky_block_Inl:
  "bluesky_block L W ap bp tp ctx = Inl (c, evs) \<Longrightarrow>
     saves evs = [] \<and> c \<in> {10, 11} \<and>
     (Stderr BlueskyPostFailed \<in> set evs \<longrightarrow> c = 11) \<and>
     Stderr TwitterUploadFailed \<notin> set evs \<and> Stderr TwitterCreateFailed \<notin> set evs"
  by (auto simp: bluesky_block_def Let_def split: if_splits option.splits prod.splits)

lemma bluesky_block_Inr:
  "bluesky_block L W ap bp tp ctx = Inr ((uri, url), evs) \<Longrightarrow>
     (\<exists>u. w_bluesky_create W = Some u \<and> uri = (if truthy u then u else None)) \<and>
     evs = [Attempt BlueskyRender, Attempt BlueskyLogin, Attempt BlueskyUpload,
            Attempt BlueskyCreate]"
  by (auto simp: bluesky_block_def Let_def split: if_splits option.splits prod.splits)


lemma publish_cases:
  obtains
    (twitter_failed) c evs where
      "arg_platform A \<noteq> Bluesky"
      "twitter_block W (twitter_auth_path_of A) = Inl (c, evs)"
      "publish L A W hp old tp ctx f n u = halt W (Exit c) evs"
  | (bluesky_failed) tid evs1 c evs2 where
      "arg_platform A \<noteq> Twitter"
      "(arg_platform A = Bluesky \<and> tid = None \<and> evs1 = []) \<or>
       (arg_platform A = Both \<and> twitter_block W (twitter_auth_path_of A) = Inr (tid, evs1))"
      "bluesky_block L W (arg_bluesky_auth A) (arg_bluesky_template A) tp ctx = Inl (c, evs2)"
      "publish L A W hp old tp ctx f n u = halt W (Exit c) (evs1 @ evs2)"
  | (posted) tid evs1 uri url evs2 where
      "(arg_platform A = Bluesky \<and> tid = None \<and> evs1 = []) \<or>
       (arg_platform A \<noteq> Bluesky \<and> twitter_block W (twitter_auth_path_of A) = Inr (tid, evs1))"
      "(arg_platform A = Twitter \<and> uri = None \<and> url = None \<and> evs2 = []) \<or>
       (arg_platform A \<noteq> Twitter \<and>
        bluesky_block L W (arg_bluesky_auth A) (arg_bluesky_template A) tp ctx
          = Inr ((uri, url), evs2))"
      "publish L A W hp old tp ctx f n u =
         \<lparr>status = Exit 0,
          events = evs1 @ evs2 @ [SaveHistory hp (old @ [new_record L W tid uri url f n u])],
          files_after = save_json (lib_dumps L) hp (old @ [new_record L W tid uri url f n u])
                          (w_files W)\<rparr>"
proof -
  let ?tw = "if arg_platform A = Twitter \<or> arg_platform A = Both
             then twitter_block W (twitter_auth_path_of A) else Inr (None, [])"
  let ?bs = "if arg_platform A = Bluesky \<or> arg_platform A = Both
             then bluesky_block L W (arg_bluesky_auth A) (arg_bluesky_template A) tp ctx
             else Inr ((None, None), [])"
  show thesis
  proof (cases ?tw)
    case (Inl a)
    obtain c evs where a: "a = (c, evs)" by (cases a)
    with Inl have "arg_platform A \<noteq> Bluesky"
      "twitter_block W (twitter_auth_path_of A) = Inl (c, evs)"
      by (auto split: if_splits)
    moreover from Inl a have "publish L A W hp old tp ctx f n u = halt W (Exit c) evs"
      by (simp add: publish_def Let_def)
    ultimately show thesis by (rule twitter_failed)
  next
    case (Inr b)
    obtain tid evs1 where b: "b = (tid, evs1)" by (cases b)
    from Inr b have tw: "(arg_platform A = Bluesky \<and> tid = None \<and> evs1 = []) \<or>
       (arg_platform A \<noteq> Bluesky \<and> twitter_block W (twitter_auth_path_of A) = Inr (tid, evs1))"
      by (cases "arg_platform A") (auto split: if_splits)
    show thesis
    proof (cases ?bs)
      case (Inl a)
      obtain c evs2 where a: "a = (c, evs2)" by (cases a)
      with Inl have bs: "arg_platform A \<noteq> Twitter"
        "bluesky_block L W (arg_bluesky_auth A) (arg_bluesky_template A) tp ctx = Inl (c, evs2)"
        by (auto split: if_splits)
      from tw bs(1) have tw': "(arg_platform A = Bluesky \<and> tid = None \<and> evs1 = []) \<or>
          (arg_platform A = Both \<and> twitter_block W (twitter_auth_path_of A) = Inr (tid, evs1))"
        by (cases "arg_platform A") auto
      from Inl a Inr b have pub: "publish L A W hp old tp ctx f n u = halt W (Exit c) (evs1 @ evs2)"
        by (simp add: publish_def Let_def)
      show thesis by (rule bluesky_failed [OF bs(1) tw' bs(2) pub])
    next
      case bsr: (Inr d)
      obtain uri url evs2 where d: "d = ((uri, url), evs2)" by (cases d) auto
      from bsr d have bs: "(arg_platform A = Twitter \<and> uri = None \<and> url = None \<and> evs2 = []) \<or>
         (arg_platform A \<noteq> Twitter \<and>
          bluesky_block L W (arg_bluesky_auth A) (arg_bluesky_template A) tp ctx
            = Inr ((uri, url), evs2))"
        by (cases "arg_platform A") (auto split: if_splits)
      from bsr d Inr b have "publish L A W hp old tp ctx f n u =
         \<lparr>status = Exit 0,
          events = evs1 @ evs2 @ [SaveHistory hp (old @ [new_record L W tid uri url f n u])],
          files_after = save_json (lib_dumps L) hp (old @ [new_record L W tid uri url f n u])
                          (w_files W)\<rparr>"
        by (simp add: publish_def Let_def)
      with tw bs show thesis by (rule posted)
    qed
  qed
qed

text \<open>The ways through \<open>main\<close>, stage by stage.\<close>

lemma dry_record:
  "(Map.empty :: jobj)(''twitter_post_id'' := None, ''posted_at'' \<mapsto> t, ''filename'' \<mapsto> f,
      ''set_name'' \<mapsto> n, ''set_url'' \<mapsto> u)
   = new_record L W None None None f n u" if "t = lib_isoformat L (w_now W)"
  using that by (intro ext) (simp add: new_record_def truthy_def)

lemma after_choice_cases:
  obtains
    (stopped) st evs where
      "after_choice L A W hp old tp chosen = halt W st evs"
      "\<forall>ev \<in> set evs. \<exists>d. ev = Stderr d \<and> \<not> adapter_diag d"
      "st = Exit 0 \<longrightarrow> arg_dry_run A \<and> \<not> arg_record_dry_run A"
  | (dry_recorded) f n u where
      "arg_dry_run A" "arg_record_dry_run A"
      "after_choice L A W hp old tp chosen =
         \<lparr>status = Exit 0,
          events = [SaveHistory hp (old @ [new_record L W None None None f n u])],
          files_after = save_json (lib_dumps L) hp (old @ [new_record L W None None None f n u])
                          (w_files W)\<rparr>"
  | (published) ctx f n u where
      "\<not> arg_dry_run A"
      "after_choice L A W hp old tp chosen = publish L A W hp old tp ctx f n u"
proof -
  let ?f = "strip (or_empty (chosen ''filename''))"
  let ?n = "normalize_quotes (lib_unescape L (strip (or_empty (chosen ''set_name''))))"
  let ?u = "strip (or_empty (chosen ''set_url''))"
  let ?d = "strip (or_empty (chosen ''date_published''))"
  let ?img = "lib_joinpath L (arg_images_dir A) ?f"
  show thesis
  proof (cases "?f = [] \<or> ?n = [] \<or> ?u = [] \<or> ?d = []")
    case True
    then have "after_choice L A W hp old tp chosen = halt W (Exit 4) [Stderr (MissingFields chosen)]"
      unfolding after_choice_def Let_def by (simp only: if_True)
    then show thesis by (rule stopped) simp_all
  next
    case fields: False
    show thesis
    proof (cases "exists_file (w_files W) ?img")
      case False
      with fields have "after_choice L A W hp old tp chosen = halt W (Exit 5) [Stderr (ImageNotFound ?img)]"
        unfolding after_choice_def Let_def by (simp only: if_False not_False_eq_True if_True)
      then show thesis by (rule stopped) simp_all
    next
      case img: True
      show thesis
      proof (cases "lib_fromiso L ?d")
        case None
        with fields img have "after_choice L A W hp old tp chosen = halt W (Uncaught (Raised ValueError)) []"
          unfolding after_choice_def Let_def
          by (simp only: if_False not_True_eq_False option.case)
        then show thesis by (rule stopped) simp_all
      next
        case (Some d)
        let ?ctx = "\<lparr>ctx_set_name = ?n, ctx_set_url = ?u, ctx_date_published_iso = ?d,
                      ctx_published = lib_strftime L d,
                      ctx_tags = (if strip (or_empty (chosen ''tags'')) \<noteq> []
                                  then filter (\<lambda>c. c \<noteq> CHR ''-'') (strip (or_empty (chosen ''tags'')))
                                  else strip (or_empty (chosen ''tags''))),
                      ctx_max_len = 280, ctx_fit_tags = fit_tags\<rparr>"
        show thesis
        proof (cases "render_post_text L W tp ?ctx 280")
          case None
          with fields img Some
          have "after_choice L A W hp old tp chosen = halt W (Exit 9) [Stderr TemplateRenderFailed]"
            unfolding after_choice_def Let_def
            by (simp only: if_False not_True_eq_False option.case)
          then show thesis by (rule stopped) simp_all
        next
          case rendered: (Some post_text)
          show thesis
          proof (cases "arg_dry_run A")
            case False
            with fields img Some rendered
            have "after_choice L A W hp old tp chosen = publish L A W hp old tp ?ctx ?f ?n ?u"
              unfolding after_choice_def Let_def
              by (simp only: if_False not_True_eq_False option.case)
            with False show thesis by (rule published)
          next
            case dry: True
            show thesis
            proof (cases "arg_record_dry_run A")
              case False
              with dry fields img Some rendered
              have "after_choice L A W hp old tp chosen = halt W (Exit 0) []"
                unfolding after_choice_def Let_def
                by (simp only: if_False if_True not_True_eq_False option.case)
              then show thesis by (rule stopped) (simp_all add: dry False)
            next
              case True
              with dry fields img Some rendered
              have "after_choice L A W hp old tp chosen =
                 \<lparr>status = Exit 0,
                  events = [SaveHistory hp (old @ [new_record L W None None None ?f ?n ?u])],
                  files_after = save_json (lib_dumps L) hp
                                  (old @ [new_record L W None None None ?f ?n ?u]) (w_files W)\<rparr>"
                unfolding after_choice_def Let_def
                by (simp only: if_False if_True not_True_eq_False option.case dry_record [OF refl])
              with dry True show thesis by (rule dry_recorded)
            qed
          qed
        qed
      qed
    qed
  qed
qed


lemma main_cases:
  obtains
    (stopped) st evs where
      "main L A W = halt W st evs"
      "\<forall>ev \<in> set evs. \<exists>d. ev = Stderr d \<and> \<not> adapter_diag d"
      "st \<noteq> Exit 0"
  | (chose) old chosen where
      "load_history (lib_loads L) (w_files W) (history_path_of A W) = Inr old"
      "main L A W = after_choice L A W (history_path_of A W) old (template_path_of A W) chosen"
proof -
  let ?mp = "arg_manifest A"
  let ?hp = "history_path_of A W"
  show thesis
  proof (cases "exists_file (w_files W) ?mp")
    case False
    then have "main L A W = halt W (Exit 2) [Stderr (ManifestNotFound ?mp)]"
      by (simp add: main_def Let_def)
    then show thesis by (rule stopped) simp_all
  next
    case ex: True
    show thesis
    proof (cases "lib_loads L (or_empty (w_files W ?mp))")
      case None
      with ex have "main L A W = halt W (Uncaught JSONDecodeError) []"
        by (simp add: main_def Let_def)
      then show thesis by (rule stopped) simp_all
    next
      case (Some doc)
      show thesis
      proof (cases doc)
        case (JObject x)
        with ex Some have "main L A W = halt W (Exit 2) [Stderr ManifestNotList]"
          by (simp add: main_def Let_def)
        then show thesis by (rule stopped) simp_all
      next
        case JOther
        with ex Some have "main L A W = halt W (Exit 2) [Stderr ManifestNotList]"
          by (simp add: main_def Let_def)
        then show thesis by (rule stopped) simp_all
      next
        case (JArray manifest)
        show thesis
        proof (cases "load_history (lib_loads L) (w_files W) ?hp")
          case (Inl err)
          with ex Some JArray have "main L A W = halt W (Uncaught err) []"
            by (simp add: main_def Let_def)
          then show thesis by (rule stopped) simp_all
        next
          case (Inr old)
          note loaded = ex Some JArray Inr
          show thesis
          proof (cases "truthy (arg_set_name A)")
            case True
            let ?matches = "filter (\<lambda>e. normalized_set_name_for_match L
                                         (Some (or_empty (e ''set_name'')))
                                       = normalized_set_name_for_match L (arg_set_name A))
                              manifest"
            show thesis
            proof (cases ?matches)
              case Nil
              with loaded True
              have "main L A W = halt W (Exit 3)
                      [Stderr (NoEntryForSetName (or_empty (arg_set_name A)))]"
                by (simp add: main_def Let_def)
              then show thesis by (rule stopped) simp_all
            next
              case (Cons chosen rest)
              with loaded True
              have "main L A W = after_choice L A W ?hp old (template_path_of A W) chosen"
                by (simp add: main_def Let_def)
              with Inr show thesis by (rule chose)
            qed
          next
            case False
            show thesis
            proof (cases "eligible_entries (lib_fromiso L) manifest old
                            (arg_threshold_days A) (w_now W)")
              case (Inl err)
              with loaded False have "main L A W = halt W (Uncaught (Raised err)) []"
                by (simp add: main_def Let_def)
              then show thesis by (rule stopped) simp_all
            next
              case el: (Inr eligible)
              show thesis
              proof (cases "eligible = []")
                case True
                with loaded False el
                have "main L A W = halt W (Exit 3) [Stderr (NoEligibleSets (arg_threshold_days A))]"
                  by (simp add: main_def Let_def)
                then show thesis by (rule stopped) simp_all
              next
                case nonempty: False
                show thesis
                proof (cases "rng_choice L W (arg_seed A) eligible")
                  case (Inl err)
                  with loaded False el nonempty have "main L A W = halt W (Uncaught err) []"
                    by (simp add: main_def Let_def)
                  then show thesis by (rule stopped) simp_all
                next
                  case (Inr chosen)
                  with loaded False el nonempty
                  have "main L A W = after_choice L A W ?hp old (template_path_of A W) chosen"
                    by (simp add: main_def Let_def)
                  with loaded(4) show thesis by (rule chose)
                qed
              qed
            qed
          qed
        qed
      qed
    qed
  qed
qed

lemma halt_simps:
  "status (halt W st evs) = st" "events (halt W st evs) = evs"
  "files_after (halt W st evs) = w_files W"
  by (simp_all add: halt_def)

lemma stderr_not_adapter:
  "\<forall>ev \<in> set evs. \<exists>d. ev = Stderr d \<and> \<not> adapter_diag d \<Longrightarrow>
     saves evs = [] \<and> attempts evs = [] \<and>
     Stderr TwitterUploadFailed \<notin> set evs \<and> Stderr TwitterCreateFailed \<notin> set evs \<and>
     Stderr BlueskyPostFailed \<notin> set evs"
  by (induction evs) auto

lemma main_stages:
  obtains
    (stopped) st evs where
      "main L A W = halt W st evs"
      "\<forall>ev \<in> set evs. \<exists>d. ev = Stderr d \<and> \<not> adapter_diag d"
      "st = Exit 0 \<longrightarrow> arg_dry_run A \<and> \<not> arg_record_dry_run A"
  | (dry_recorded) old f n u where
      "load_history (lib_loads L) (w_files W) (history_path_of A W) = Inr old"
      "arg_dry_run A" "arg_record_dry_run A"
      "main L A W =
         \<lparr>status = Exit 0,
          events = [SaveHistory (history_path_of A W)
                      (old @ [new_record L W None None None f n u])],
          files_after = save_json (lib_dumps L) (history_path_of A W)
                          (old @ [new_record L W None None None f n u]) (w_files W)\<rparr>"
  | (published) old ctx f n u where
      "load_history (lib_loads L) (w_files W) (history_path_of A W) = Inr old"
      "\<not> arg_dry_run A"
      "main L A W = publish L A W (history_path_of A W) old (template_path_of A W) ctx f n u"
proof (cases rule: main_cases [of L A W])
  case (stopped st evs)
  then show thesis by (intro that(1) [of st evs]) simp_all
next
  case (chose old chosen)
  show thesis
  proof (cases rule: after_choice_cases
      [of L A W "history_path_of A W" old "template_path_of A W" chosen])
    case (stopped st evs)
    with chose show thesis by (intro that(1) [of st evs]) simp_all
  next
    case (dry_recorded f n u)
    with chose show thesis by (intro that(2) [of old f n u]) simp_all
  next
    case (published ctx f n u)
    with chose show thesis by (intro that(3) [of old ctx f n u]) simp_all
  qed
qed


lemma publish_fail_fast:
  fixes out
  assumes out: "out = publish L A W hp old tp ctx f n u"
  shows "(Stderr TwitterUploadFailed \<in> set (events out) \<longrightarrow>
            status out = Exit 7 \<and> no_write W out \<and>
            attempts (events out) = [TwitterInit, TwitterUpload]) \<and>
         (Stderr TwitterCreateFailed \<in> set (events out) \<longrightarrow>
            status out = Exit 8 \<and> no_write W out \<and>
            attempts (events out) = [TwitterInit, TwitterUpload, TwitterCreate]) \<and>
         (Stderr BlueskyPostFailed \<in> set (events out) \<longrightarrow>
            status out = Exit 11 \<and> no_write W out) \<and>
         (saves (events out) \<noteq> [] \<longrightarrow>
            (\<forall>d. Stderr d \<notin> set (events out)) \<and>
            (\<exists>rec. saves (events out) = [(hp, old @ [rec])] \<and>
               rec ''twitter_post_id'' =
                 (if TwitterCreate \<in> set (attempts (events out))
                  then returned_id (w_twitter_create W) else None) \<and>
               rec ''bluesky_uri'' =
                 (if BlueskyCreate \<in> set (attempts (events out))
                  then returned_id (w_bluesky_create W) else None)))"
proof (cases rule: publish_cases [of A W L hp old tp ctx f n u])
  case (twitter_failed c evs)
  from twitter_failed(3) out have o: "status out = Exit c" "events out = evs"
    "files_after out = w_files W"
    by (simp_all add: halt_simps)
  from twitter_block_Inl [OF twitter_failed(2)] show ?thesis
    unfolding o no_write_def by simp
next
  case (bluesky_failed tid evs1 c evs2)
  from bluesky_failed(4) out have o: "status out = Exit c" "events out = evs1 @ evs2"
    "files_after out = w_files W"
    by (simp_all add: halt_simps)
  from bluesky_failed(2) have "evs1 = [] \<or>
      evs1 = [Attempt TwitterInit, Attempt TwitterUpload, Attempt TwitterCreate]"
    by (auto dest: twitter_block_Inr)
  then have t: "saves evs1 = []" "Stderr TwitterUploadFailed \<notin> set evs1"
    "Stderr TwitterCreateFailed \<notin> set evs1" "Stderr BlueskyPostFailed \<notin> set evs1"
    by auto
  from bluesky_block_Inl [OF bluesky_failed(3)] t show ?thesis
    unfolding o no_write_def by (simp add: saves_append)
next
  case (posted tid evs1 uri url evs2)
  let ?rec = "new_record L W tid uri url f n u"
  from posted(3) out have o: "status out = Exit 0"
    "events out = evs1 @ evs2 @ [SaveHistory hp (old @ [?rec])]"
    by simp_all
  from posted(1) have tw: "(evs1 = [] \<and> tid = None) \<or>
      (evs1 = [Attempt TwitterInit, Attempt TwitterUpload, Attempt TwitterCreate] \<and>
       w_twitter_create W = Some tid)"
    by (auto dest: twitter_block_Inr)
  then have t: "saves evs1 = []" "\<forall>d. Stderr d \<notin> set evs1"
    "BlueskyCreate \<notin> set (attempts evs1)"
    "(if TwitterCreate \<in> set (attempts evs1) then returned_id (w_twitter_create W) else None)
       = (if truthy tid then tid else None)"
    by (auto simp: returned_id_def truthy_def)
  from posted(2) have bs: "(evs2 = [] \<and> uri = None) \<or>
      (evs2 = [Attempt BlueskyRender, Attempt BlueskyLogin, Attempt BlueskyUpload,
               Attempt BlueskyCreate] \<and>
       (\<exists>u. w_bluesky_create W = Some u \<and> uri = (if truthy u then u else None)))"
  proof (elim disjE conjE)
    assume "uri = None" "evs2 = []"
    then show ?thesis by simp
  next
    assume "bluesky_block L W (arg_bluesky_auth A) (arg_bluesky_template A) tp ctx
              = Inr ((uri, url), evs2)"
    from bluesky_block_Inr [OF this] show ?thesis by blast
  qed
  then have b: "saves evs2 = []" "\<forall>d. Stderr d \<notin> set evs2"
    "TwitterCreate \<notin> set (attempts evs2)"
    "(if BlueskyCreate \<in> set (attempts evs2) then returned_id (w_bluesky_create W) else None)
       = uri"
    by (auto simp: returned_id_def)
  have rec: "?rec ''twitter_post_id'' = (if truthy tid then tid else None)"
      "?rec ''bluesky_uri'' = uri"
    by (simp_all add: new_record_def)
  have sv: "saves (events out) = [(hp, old @ [?rec])]"
    by (simp add: o saves_append t b)
  have nd: "\<forall>d. Stderr d \<notin> set (events out)"
    using t(2) b(2) by (simp add: o)
  have ids: "?rec ''twitter_post_id'' =
               (if TwitterCreate \<in> set (attempts (events out))
                then returned_id (w_twitter_create W) else None)"
            "?rec ''bluesky_uri'' =
               (if BlueskyCreate \<in> set (attempts (events out))
                then returned_id (w_bluesky_create W) else None)"
    using t(3,4) b(3,4) by (simp_all add: o attempts_append rec)
  from sv nd ids show ?thesis by blast
qed

text \<open>The unseeded generator is read by the choice only, and only without a seed.\<close>

lemma rng_choice_os:
  "seed \<noteq> None \<Longrightarrow> rng_choice L (W\<lparr>w_os_randbelow := r\<rparr>) seed xs = rng_choice L W seed xs"
  by (cases seed) (simp_all add: rng_choice_def)

lemma blocks_os:
  "twitter_block (W\<lparr>w_os_randbelow := r\<rparr>) p = twitter_block W p"
  "render_post_text L (W\<lparr>w_os_randbelow := r\<rparr>) tp ctx n = render_post_text L W tp ctx n"
  "halt (W\<lparr>w_os_randbelow := r\<rparr>) st evs = halt W st evs"
  "history_path_of A (W\<lparr>w_os_randbelow := r\<rparr>) = history_path_of A W"
  "new_record L (W\<lparr>w_os_randbelow := r\<rparr>) a b c d e f = new_record L W a b c d e f"
  by (simp_all add: twitter_block_def render_post_text_def halt_def history_path_of_def
        new_record_def)

lemma template_path_os:
  "template_path_of A (W\<lparr>w_os_randbelow := r\<rparr>) = template_path_of A W"
  unfolding template_path_of_def by auto

lemma bluesky_os:
  "bluesky_block L (W\<lparr>w_os_randbelow := r\<rparr>) ap bp tp ctx = bluesky_block L W ap bp tp ctx"
  by (simp add: bluesky_block_def blocks_os cong: option.case_cong if_cong)

lemma publish_os:
  "publish L A (W\<lparr>w_os_randbelow := r\<rparr>) hp old tp ctx f n u = publish L A W hp old tp ctx f n u"
  by (simp add: publish_def blocks_os bluesky_os cong: option.case_cong sum.case_cong if_cong)

lemma after_choice_os:
  "after_choice L A (W\<lparr>w_os_randbelow := r\<rparr>) hp old tp chosen = after_choice L A W hp old tp chosen"
  by (simp add: after_choice_def blocks_os publish_os cong: option.case_cong sum.case_cong if_cong)

text \<open>A seeded run does not consult the unseeded generator at all.\<close>

lemma seeded_run_ignores_os_generator:
  "arg_seed A \<noteq> None \<Longrightarrow> main L A (W\<lparr>w_os_randbelow := r\<rparr>) = main L A W"
  by (simp add: main_def blocks_os template_path_os after_choice_os rng_choice_os
        cong: option.case_cong sum.case_cong json.case_cong list.case_cong if_cong)

lemmas main_defs = main_def after_choice_def publish_def twitter_block_def bluesky_block_def
  halt_def history_path_of_def template_path_of_def twitter_auth_path_of_def exists_file_def
  load_history_def truthy_def normalized_set_name_for_match_def normalize_quotes_def
  rng_choice_def render_post_text_def slice_to_def bluesky_web_url_from_at_uri_def
  fit_tags_def new_record_def returned_id_def no_write_def

lemmas sample_main_defs = lib_sample_def args_sample_def files_sample_def world_sample_def
  loads_sample_def dumps_sample_def isoformat_sample_def strftime_sample_def jinja_sample_def
  rec_sample_def world_twitter_down_def world_bluesky_down_def world_other_rng_def
  args_no_such_name_def args_long_threshold_def args_dry_record_def

lemmas run_defs = main_defs sample_main_defs engine_defs text_defs date_defs sample_defs Let_def

text \<open>The sample runs, evaluated.\<close>

lemma sample_run:
  "main lib_sample args_sample world_sample =
     \<lparr>status = Exit 0,
      events = [Attempt TwitterInit, Attempt TwitterUpload, Attempt TwitterCreate,
                Attempt BlueskyRender, Attempt BlueskyLogin, Attempt BlueskyUpload,
                Attempt BlueskyCreate,
                SaveHistory ''h.json'' ([hist_a, hist_b] @ [rec_sample])],
      files_after = save_json dumps_sample ''h.json'' ([hist_a, hist_b] @ [rec_sample])
                      files_sample\<rparr>"
  by (simp add: run_defs)

lemma sample_run_twitter_down:
  "main lib_sample args_sample world_twitter_down =
     \<lparr>status = Exit 8,
      events = [Attempt TwitterInit, Attempt TwitterUpload, Attempt TwitterCreate,
                Stderr TwitterCreateFailed],
      files_after = files_sample\<rparr>"
  by (simp add: run_defs)

lemma sample_run_bluesky_down:
  "main lib_sample args_sample world_bluesky_down =
     \<lparr>status = Exit 11,
      events = [Attempt TwitterInit, Attempt TwitterUpload, Attempt TwitterCreate,
                Attempt BlueskyRender, Attempt BlueskyLogin, Attempt BlueskyUpload,
                Attempt BlueskyCreate, Stderr BlueskyPostFailed],
      files_after = files_sample\<rparr>"
  by (simp add: run_defs)




text \<open>
  Claim C1, as the code has it. A failed media upload or post creation on Twitter ends
  the run with status 7 or 8, with no step of the Bluesky adapter attempted and nothing
  written. A failure of the Bluesky adapter ends the run with status 11 and nothing
  written. A run that saves a history record has printed no diagnostic; its record
  holds, for each platform whose post creation was attempted, the identifier that the
  platform returned, and \<open>null\<close> for a platform not attempted.
\<close>

theorem remote_failure_ends_run:
  fixes out
  assumes out: "out = main L A W"
  shows "(Stderr TwitterUploadFailed \<in> set (events out) \<longrightarrow>
            status out = Exit 7 \<and> no_write W out \<and>
            attempts (events out) = [TwitterInit, TwitterUpload]) \<and>
         (Stderr TwitterCreateFailed \<in> set (events out) \<longrightarrow>
            status out = Exit 8 \<and> no_write W out \<and>
            attempts (events out) = [TwitterInit, TwitterUpload, TwitterCreate]) \<and>
         (Stderr BlueskyPostFailed \<in> set (events out) \<longrightarrow>
            status out = Exit 11 \<and> no_write W out) \<and>
         (saves (events out) \<noteq> [] \<longrightarrow>
            (\<forall>d. Stderr d \<notin> set (events out)) \<and>
            (\<exists>old rec. saves (events out) = [(history_path_of A W, old @ [rec])] \<and>
               rec ''twitter_post_id'' =
                 (if TwitterCreate \<in> set (attempts (events out))
                  then returned_id (w_twitter_create W) else None) \<and>
               rec ''bluesky_uri'' =
                 (if BlueskyCreate \<in> set (attempts (events out))
                  then returned_id (w_bluesky_create W) else None)))"
proof (cases rule: main_stages [of L A W])
  case (stopped st evs)
  from stopped(1) out have o: "events out = evs"
    by (simp add: halt_simps)
  from stderr_not_adapter [OF stopped(2)] show ?thesis
    unfolding o by simp
next
  case (dry_recorded old f n u)
  let ?rec = "new_record L W None None None f n u"
  from dry_recorded(4) out
  have o: "events out = [SaveHistory (history_path_of A W) (old @ [?rec])]"
    by simp
  have "?rec ''twitter_post_id'' = None" "?rec ''bluesky_uri'' = None"
    by (simp_all add: new_record_def)
  then show ?thesis
    unfolding o by simp
next
  case (published old ctx f n u)
  from published(3) out
  have "out = publish L A W (history_path_of A W) old (template_path_of A W) ctx f n u"
    by simp
  from publish_fail_fast [OF this] show ?thesis by blast
qed

theorem remote_failure_ends_run_witness:
  "Stderr TwitterCreateFailed \<in> set (events (main lib_sample args_sample world_twitter_down)) \<and>
   status (main lib_sample args_sample world_twitter_down) = Exit 8 \<and>
   no_write world_twitter_down (main lib_sample args_sample world_twitter_down) \<and>
   attempts (events (main lib_sample args_sample world_twitter_down))
     = [TwitterInit, TwitterUpload, TwitterCreate] \<and>
   Stderr BlueskyPostFailed \<in> set (events (main lib_sample args_sample world_bluesky_down)) \<and>
   status (main lib_sample args_sample world_bluesky_down) = Exit 11 \<and>
   no_write world_bluesky_down (main lib_sample args_sample world_bluesky_down) \<and>
   saves (events (main lib_sample args_sample world_sample))
     = [(''h.json'', [hist_a, hist_b] @ [rec_sample])] \<and>
   rec_sample ''twitter_post_id'' = Some ''1001'' \<and>
   rec_sample ''bluesky_uri'' = Some ''at://did:plc:abc/app.bsky.feed.post/k1''"
proof -
  have tw: "Stderr TwitterCreateFailed
              \<in> set (events (main lib_sample args_sample world_twitter_down))"
    by (simp add: sample_run_twitter_down)
  have bs: "Stderr BlueskyPostFailed
              \<in> set (events (main lib_sample args_sample world_bluesky_down))"
    by (simp add: sample_run_bluesky_down)
  from remote_failure_ends_run [where L = lib_sample and A = args_sample and W = world_twitter_down, OF refl] tw
  have "status (main lib_sample args_sample world_twitter_down) = Exit 8 \<and>
        no_write world_twitter_down (main lib_sample args_sample world_twitter_down) \<and>
        attempts (events (main lib_sample args_sample world_twitter_down))
          = [TwitterInit, TwitterUpload, TwitterCreate]"
    by blast
  moreover
  from remote_failure_ends_run [where L = lib_sample and A = args_sample and W = world_bluesky_down, OF refl] bs
  have "status (main lib_sample args_sample world_bluesky_down) = Exit 11 \<and>
        no_write world_bluesky_down (main lib_sample args_sample world_bluesky_down)"
    by blast
  moreover have "saves (events (main lib_sample args_sample world_sample))
     = [(''h.json'', [hist_a, hist_b] @ [rec_sample])]"
    by (simp add: sample_run)
  moreover have "rec_sample ''twitter_post_id'' = Some ''1001''"
    "rec_sample ''bluesky_uri'' = Some ''at://did:plc:abc/app.bsky.feed.post/k1''"
    by (simp_all add: rec_sample_def)
  ultimately show ?thesis using tw bs by simp
qed

text \<open>
  Claim C1 as the specification states it fails. With both platforms selected, the
  creation of the Twitter post failing and every step of the Bluesky adapter ready to
  succeed, the run ends with status 8: no step of the Bluesky adapter is attempted and no
  history is saved. With the creation of the Bluesky post failing after Twitter has
  posted, the run ends with status 11 and no history is saved either.
\<close>

theorem independent_failure_counterexample:
  "arg_platform args_sample = Both \<and>
   w_twitter_create world_twitter_down = None \<and>
   w_bluesky_create world_twitter_down = Some (Some ''at://did:plc:abc/app.bsky.feed.post/k1'') \<and>
   status (main lib_sample args_sample world_twitter_down) = Exit 8 \<and>
   attempts (events (main lib_sample args_sample world_twitter_down))
     = [TwitterInit, TwitterUpload, TwitterCreate] \<and>
   saves (events (main lib_sample args_sample world_twitter_down)) = [] \<and>
   files_after (main lib_sample args_sample world_twitter_down) = files_sample \<and>
   w_twitter_create world_bluesky_down = Some (Some ''1001'') \<and>
   w_bluesky_create world_bluesky_down = None \<and>
   status (main lib_sample args_sample world_bluesky_down) = Exit 11 \<and>
   saves (events (main lib_sample args_sample world_bluesky_down)) = [] \<and>
   files_after (main lib_sample args_sample world_bluesky_down) = files_sample"
  by (simp add: sample_run_twitter_down sample_run_bluesky_down)
     (simp add: args_sample_def world_twitter_down_def world_bluesky_down_def world_sample_def)



text \<open>
  Claim C9, as the code has it. An override that matches no manifest entry and an empty
  eligible list both end the run with exit status 3; the two runs differ in the
  diagnostic that they print to the error stream.
\<close>

theorem selection_failures_share_exit_status:
  assumes manifest: "exists_file (w_files W) (arg_manifest A)"
      "lib_loads L (or_empty (w_files W (arg_manifest A))) = Some (JArray manifest)"
    and history: "load_history (lib_loads L) (w_files W) (history_path_of A W) = Inr history"
  shows "(truthy (arg_set_name A) \<and>
          filter (\<lambda>e. normalized_set_name_for_match L (Some (or_empty (e ''set_name'')))
                       = normalized_set_name_for_match L (arg_set_name A)) manifest = [] \<longrightarrow>
            main L A W = halt W (Exit 3)
                           [Stderr (NoEntryForSetName (or_empty (arg_set_name A)))]) \<and>
         (\<not> truthy (arg_set_name A) \<and>
          eligible_entries (lib_fromiso L) manifest history (arg_threshold_days A) (w_now W)
            = Inr [] \<longrightarrow>
            main L A W = halt W (Exit 3) [Stderr (NoEligibleSets (arg_threshold_days A))]) \<and>
         NoEntryForSetName name \<noteq> NoEligibleSets days"
  using manifest history by (simp add: main_def Let_def)

theorem selection_failures_share_exit_status_witness:
  "main lib_sample args_no_such_name world_sample
     = halt world_sample (Exit 3) [Stderr (NoEntryForSetName ''gamma'')] \<and>
   main lib_sample args_long_threshold world_sample
     = halt world_sample (Exit 3) [Stderr (NoEligibleSets 1000)]"
proof -
  have m1: "exists_file (w_files world_sample) (arg_manifest args_no_such_name)"
    "lib_loads lib_sample (or_empty (w_files world_sample (arg_manifest args_no_such_name)))
       = Some (JArray [entry_a, entry_b])"
    "load_history (lib_loads lib_sample) (w_files world_sample)
       (history_path_of args_no_such_name world_sample) = Inr [hist_a, hist_b]"
    by (simp_all add: run_defs)
  have m2: "exists_file (w_files world_sample) (arg_manifest args_long_threshold)"
    "lib_loads lib_sample (or_empty (w_files world_sample (arg_manifest args_long_threshold)))
       = Some (JArray [entry_a, entry_b])"
    "load_history (lib_loads lib_sample) (w_files world_sample)
       (history_path_of args_long_threshold world_sample) = Inr [hist_a, hist_b]"
    by (simp_all add: run_defs)
  have no_match: "truthy (arg_set_name args_no_such_name) \<and>
      filter (\<lambda>e. normalized_set_name_for_match lib_sample (Some (or_empty (e ''set_name'')))
                   = normalized_set_name_for_match lib_sample (arg_set_name args_no_such_name))
        [entry_a, entry_b] = []"
    by (simp add: run_defs)
  have none_eligible: "\<not> truthy (arg_set_name args_long_threshold) \<and>
      eligible_entries (lib_fromiso lib_sample) [entry_a, entry_b] [hist_a, hist_b]
        (arg_threshold_days args_long_threshold) (w_now world_sample) = Inr []"
    by (simp add: run_defs)
  have names: "or_empty (arg_set_name args_no_such_name) = ''gamma''"
    "arg_threshold_days args_long_threshold = 1000"
    by (simp_all add: or_empty_def args_no_such_name_def args_long_threshold_def args_sample_def)
  from selection_failures_share_exit_status [OF m1] no_match
       selection_failures_share_exit_status [OF m2] none_eligible
  show ?thesis
    unfolding names by blast
qed

text \<open>
  Claim C9 as the specification states it fails: the two failures do not have exit
  statuses of their own.
\<close>

theorem selection_exit_status_counterexample:
  "events (main lib_sample args_no_such_name world_sample)
     = [Stderr (NoEntryForSetName ''gamma'')] \<and>
   events (main lib_sample args_long_threshold world_sample)
     = [Stderr (NoEligibleSets 1000)] \<and>
   status (main lib_sample args_no_such_name world_sample)
     = status (main lib_sample args_long_threshold world_sample)"
  by (simp add: run_defs)

end
